theory Spec2Isabelle
  imports Complex_Main "HOL-Library.AList" "HOL-Library.Log_Nat"
begin

section \<open>JavaScript numbers\<close>

text \<open>
  The USDC amounts of the session ledger are JavaScript numbers: IEEE 754 binary64 values.
  A finite one is kept as the rational it denotes (the sign of zero is not kept; the
  comparisons do not tell the two zeros apart), beside the two infinities and \<^verbatim>\<open>NaN\<close>.  An
  arithmetic operation on finite numbers is the exact operation followed by \<open>binary64\<close>:
  rounding to the nearest value with 53 significant bits and exponent of the last place
  at least \<open>-1074\<close>, a tie going to the even significand, and to an infinity when the
  rounded magnitude reaches \<open>2^1024\<close>.  A decimal literal denotes the rounding of its
  value: \<^verbatim>\<open>0.3\<close> is \<open>binary64 (3/10)\<close>.  Bigint token units are integers.
\<close>

datatype number = Num rat | PosInf | NegInf | NaN

type_synonym amount = number

text \<open>The exponent \<open>e\<close> with \<open>2^e \<le> |x| < 2^(e+1)\<close> of a rational other than zero, the
  unit in the last place of the binade of \<open>x\<close> (that of the subnormal numbers below
  \<open>2^-1022\<close>), the integer nearest to a rational, the even one of two equally near, and
  the rounding without a largest exponent.\<close>

definition exponent :: "rat \<Rightarrow> int" where
  "exponent x = (if 1 \<le> \<bar>x\<bar> then bitlen \<lfloor>\<bar>x\<bar>\<rfloor> - 1 else - bitlen (\<lceil>1 / \<bar>x\<bar>\<rceil> - 1))"

definition ulp :: "rat \<Rightarrow> rat" where
  "ulp x = 2 powi (max (exponent x) (- 1022) - 52)"

definition nearest_even :: "rat \<Rightarrow> int" where
  "nearest_even x =
     (let n = \<lfloor>x\<rfloor>; f = x - of_int n
      in if f < 1 / 2 then n else if 1 / 2 < f then n + 1 else if even n then n else n + 1)"

definition round64 :: "rat \<Rightarrow> rat" where
  "round64 x = of_int (nearest_even (x / ulp x)) * ulp x"

definition binary64 :: "rat \<Rightarrow> number" where
  "binary64 x =
     (let r = round64 x
      in if 2 ^ 1024 \<le> r then PosInf else if r \<le> - (2 ^ 1024) then NegInf else Num r)"

text \<open>The comparisons \<^verbatim>\<open><=\<close> and \<^verbatim>\<open><\<close> (\<^verbatim>\<open>a > b\<close> is \<open>b < a\<close>): false whenever an
  operand is \<^verbatim>\<open>NaN\<close>.\<close>

instantiation number :: "{zero, ord}"
begin

definition zero_number :: number where
  "zero_number = Num 0"

fun less_eq_number :: "number \<Rightarrow> number \<Rightarrow> bool" where
  "less_eq_number (Num a) (Num b) = (a \<le> b)"
| "less_eq_number NaN y = False"
| "less_eq_number x NaN = False"
| "less_eq_number NegInf y = True"
| "less_eq_number x PosInf = True"
| "less_eq_number x y = False"

fun less_number :: "number \<Rightarrow> number \<Rightarrow> bool" where
  "less_number (Num a) (Num b) = (a < b)"
| "less_number NaN y = False"
| "less_number x NaN = False"
| "less_number PosInf y = False"
| "less_number x NegInf = False"
| "less_number x y = True"

instance ..

end

text \<open>The operators \<^verbatim>\<open>+\<close>, \<^verbatim>\<open>-\<close> and \<^verbatim>\<open>*\<close>, the division by a finite constant other
  than zero (the code divides by 100 only), \<^verbatim>\<open>Math.floor\<close>, and the truth value of
  \<^verbatim>\<open>!x\<close>.\<close>

fun add64 :: "number \<Rightarrow> number \<Rightarrow> number" where
  "add64 (Num a) (Num b) = binary64 (a + b)"
| "add64 NaN y = NaN"
| "add64 x NaN = NaN"
| "add64 PosInf NegInf = NaN"
| "add64 NegInf PosInf = NaN"
| "add64 PosInf y = PosInf"
| "add64 x PosInf = PosInf"
| "add64 NegInf y = NegInf"
| "add64 x NegInf = NegInf"

fun neg64 :: "number \<Rightarrow> number" where
  "neg64 (Num a) = Num (- a)"
| "neg64 PosInf = NegInf"
| "neg64 NegInf = PosInf"
| "neg64 NaN = NaN"

definition sub64 :: "number \<Rightarrow> number \<Rightarrow> number" where
  "sub64 x y = add64 x (neg64 y)"

fun scale_inf :: "number \<Rightarrow> rat \<Rightarrow> number" where
  "scale_inf x c = (if c = 0 then NaN else if 0 < c then x else neg64 x)"

fun mul64 :: "number \<Rightarrow> number \<Rightarrow> number" where
  "mul64 (Num a) (Num b) = binary64 (a * b)"
| "mul64 NaN y = NaN"
| "mul64 x NaN = NaN"
| "mul64 (Num a) y = scale_inf y a"
| "mul64 x (Num b) = scale_inf x b"
| "mul64 PosInf y = y"
| "mul64 NegInf y = neg64 y"

fun div64 :: "number \<Rightarrow> rat \<Rightarrow> number" where
  "div64 (Num a) c = binary64 (a / c)"
| "div64 NaN c = NaN"
| "div64 x c = (if 0 < c then x else neg64 x)"

fun floor64 :: "number \<Rightarrow> number" where
  "floor64 (Num a) = Num (of_int \<lfloor>a\<rfloor>)"
| "floor64 x = x"


text \<open>The values the rounding can take: a significand of at most 53 bits times a power of
  two not below \<open>2^-1074\<close>.  And the values \<open>spent\<close> can take: a finite number above
  \<open>-2^1024\<close> that is its own rounding, or \<^verbatim>\<open>Infinity\<close>.\<close>

definition grid :: "rat set" where
  "grid = {of_int m * 2 powi k | m k. \<bar>m\<bar> \<le> 2 ^ 53 \<and> - 1074 \<le> k}"


section \<open>Data model of YellowTokService\<close>

text \<open>
  The service object of \<^verbatim>\<open>src/services/YellowTokService.js\<close> is a record; every method
  takes the record and returns the updated record together with the list of effects it
  performed, in order (events triggered, messages sent over the WebSocket, on-chain calls,
  timers; \<open>SetTimeout\<close> stands for \<^verbatim>\<open>setInterval\<close> too).  Console output and the
  display texts of progress events are left out.
  Collaborators (wallet, chain reader, Nitrolite SDK, ClearNode) are parameters that give the
  outcome of each call.
\<close>

type_synonym address = string
type_synonym channel_id = string
type_synonym tx_hash = string
type_synonym socket = nat

type_synonym units = int

datatype rpc_method =
    AuthChallenge | AuthVerify | Error | GetConfig | GetLedgerBalances | BalanceUpdate
  | ChannelsUpdate | Assets | Transfer | CreateChannel | CloseChannel | ResizeChannel
  | OtherMethod string

datatype error_type =
    InitializationError | ConnectionError | MaxReconnectAttempts | WithdrawError
  | SessionCreationError | TipError | SessionCloseError | ClearnodeError

text \<open>Errors thrown by the service's own checks, named by the check that failed;
  \<open>Thrown\<close> is an exception raised by a collaborator (wallet, chain reader, SDK, socket)
  or a rejected RPC, with its message.  \<open>error_message\<close> is the text of the error; for
  three of the checks it depends on the method that makes the check.\<close>

datatype error =
    NotConnected
  | NoPublicClient
  | ChainUnsupported nat "nat list"
  | SessionArgsRequired
  | NoActiveSession
  | DifferentStreamer
  | NonPositiveTip
  | InsufficientBalance
  | AuthNeedsWallet
  | AuthTimedOut
  | AuthConnectionLost
  | AuthSignFailed
  | AuthRejected string
  | Thrown string

datatype thrower = ByDeposit | ByCleanup | BySession | ByWithdraw

fun show_nat :: "nat \<Rightarrow> string" where
  "show_nat n = (if n < 10 then [''0123456789'' ! n]
                 else show_nat (n div 10) @ [''0123456789'' ! (n mod 10)])"

declare show_nat.simps [simp del]

fun join_comma :: "string list \<Rightarrow> string" where
  "join_comma [] = []"
| "join_comma [x] = x"
| "join_comma (x # y # r) = x @ '', '' @ join_comma (y # r)"

fun error_message :: "thrower \<Rightarrow> error \<Rightarrow> string" where
  "error_message m NotConnected =
     (if m = BySession
      then ''Not connected/authenticated to Yellow Network. Please initialize first.''
      else ''Not connected/authenticated. Call initialize() first.'')"
| "error_message m NoPublicClient =
     (if m = ByDeposit then ''Public client not available. Pass it during initialize().''
      else ''Public client not available.'')"
| "error_message m (ChainUnsupported c cs) =
     ''Chain '' @ show_nat c @
     (if m = ByDeposit then '' is not supported by ClearNode. Supported: ''
      else '' not supported. Supported: '') @ join_comma (map show_nat cs)"
| "error_message m SessionArgsRequired = ''Streamer address and deposit amount are required''"
| "error_message m NoActiveSession =
     ''No active stream session. Please create a session first.''"
| "error_message m DifferentStreamer = ''Active session is with a different streamer''"
| "error_message m NonPositiveTip = ''Tip amount must be greater than 0''"
| "error_message m InsufficientBalance = ''Insufficient balance. Please deposit more funds.''"
| "error_message m AuthNeedsWallet =
     ''Wallet client and session key required for authentication''"
| "error_message m AuthTimedOut =
     ''Authentication timed out (30s). ClearNode may be unreachable.''"
| "error_message m AuthConnectionLost = ''Connection lost during authentication''"
| "error_message m AuthSignFailed = ''User rejected signature or signing failed''"
| "error_message m (AuthRejected r) = r"
| "error_message m (Thrown r) = r"

datatype session_status = Active | Closed

record session =
  sessionId :: nat
  streamerAddress :: address
  viewerAddress :: "address option"
  initialDeposit :: amount
  currentBalance :: amount
  spent :: amount
  commissionRate :: amount
  isPartner :: bool
  createdAt :: nat
  sessionStatus :: session_status

record config =
  standardCommission :: amount
  partnerCommission :: amount
  defaultAsset :: string
  assetDecimals :: nat

record network =
  chainId :: nat
  custodyAddress :: address
  adjudicatorAddress :: address

record asset =
  assetSymbol :: string
  assetChainId :: nat
  assetToken :: address

text \<open>A \<^verbatim>\<open>NitroliteClient\<close>, as far as the service configures it.\<close>

record client =
  clientCustody :: address
  clientAdjudicator :: address
  clientChainId :: nat

text \<open>An entry of \<^verbatim>\<open>_pendingRequests\<close>: the promise the entry settles and its timeout
  timer, both named by numbers.\<close>

record pending =
  promise :: nat
  timeoutId :: nat

datatype timer =
    ReconnectTimer | KeepAliveTimer | AuthTimer nat | RpcTimer nat
  | ChannelReadyTimer | ResizeTimer | DepositTimer | PollTimer

datatype waiter = ChannelReady | ResizeProcessed | DepositConfirmed

text \<open>Payloads sent over the WebSocket (the SDK's \<^verbatim>\<open>create...Message\<close> builders).\<close>

datatype message =
    TransferMsg address string amount
  | GetLedgerBalancesMsg
  | GetConfigMsg
  | CreateChannelMsg nat address
  | CloseChannelMsg channel_id
  | ResizeMsg channel_id units "address option"
  | AllocateMsg channel_id units "address option"
  | AuthRequestMsg
  | AuthVerifyMsg

text \<open>On-chain transactions the service submits through the wallet.\<close>

datatype tx =
    ApproveTx address address units
  | DepositTx address units
  | CreateChannelTx
  | ResizeChannelTx channel_id
  | CloseChannelTx
  | WithdrawalTx "address option" nat

datatype chain_read =
    AllowanceRead address "address option" address
  | AccountBalanceRead "address option"
  | ChannelDataRead channel_id

datatype wait =
    ReceiptWait tx_hash
  | ChannelReadyWait channel_id nat
  | ResizeProcessedWait channel_id nat
  | DepositConfirmedWait nat
  | Sleep nat

record tip_info =
  tipAmount :: amount
  amountInUnits :: number
  commission :: amount
  creatorReceives :: amount
  remainingBalance :: amount
  totalSpent :: amount

datatype event =
    OnConnected
  | OnDisconnected
  | OnError error_type string
  | OnDepositProgress nat nat bool
  | OnWithdrawProgress nat nat bool
  | OnSessionCreated nat
  | OnTipSent tip_info address string
  | OnBalanceUpdate
  | OnSessionClosed nat

datatype action =
    Event event
  | SetTimeout timer nat
  | ClearTimer timer
  | WsSend message
  | Submit tx
  | Read chain_read
  | Await wait
  | NewClient client
  | Resolved nat rpc_method
  | Rejected nat string
  | WaitOver waiter
  | CloseSocket socket
  | StoreJwt string

record service =
  config :: config
  connected :: bool
  authenticated :: bool
  reconnectAttempts :: nat
  ws :: "socket option"
  keepAliveInterval :: bool
  userAddress :: "address option"
  walletClient :: bool
  publicClient :: bool
  sessionKey :: bool
  sessionSigner :: bool
  activeSessions :: "nat list"
  activeStreamSession :: "session option"
  pendingRequests :: "(rpc_method \<times> pending) list"
  brokerAddress :: "address option"
  networkConfig :: "network list option"
  channelId :: "channel_id option"
  existingChannelId :: "channel_id option"
  channelReadyResolve :: "channel_id option"
  resizeProcessedResolve :: "channel_id option"
  depositConfirmedResolve :: bool
  nitroliteClient :: "client option"
  tokenAddress :: "address option"
  assets :: "asset list"
  isDeposited :: bool

text \<open>
  Fields that hold an object or \<^verbatim>\<open>null\<close> and are only tested for presence
  (\<open>walletClient\<close>, \<open>publicClient\<close>, \<open>sessionKey\<close>, \<open>sessionSigner\<close>, the keep-alive
  interval, the deposit-confirmation resolver) are booleans.  \<open>activeSessions\<close> holds
  the keys of the map of that name (its values are never read).  \<open>networkConfig\<close> is the
  \<^verbatim>\<open>networks\<close> list of the fetched configuration, \<open>None\<close> while there is no
  configuration or it has no such list.
  The state the constructor builds:
\<close>

definition default_config :: config where
  "default_config = \<lparr>standardCommission = Num 10, partnerCommission = Num 3,
     defaultAsset = ''usdc'', assetDecimals = 6\<rparr>"

definition new_service :: service where
  "new_service = \<lparr>config = default_config, connected = False, authenticated = False,
     reconnectAttempts = 0, ws = None, keepAliveInterval = False, userAddress = None,
     walletClient = False, publicClient = False, sessionKey = False, sessionSigner = False,
     activeSessions = [], activeStreamSession = None, pendingRequests = [],
     brokerAddress = None, networkConfig = None, channelId = None, existingChannelId = None,
     channelReadyResolve = None, resizeProcessedResolve = None,
     depositConfirmedResolve = False, nitroliteClient = None, tokenAddress = None,
     assets = [], isDeposited = False\<rparr>"

text \<open>JavaScript truthiness of a string-or-null field: \<^verbatim>\<open>null\<close> and the empty string
  are falsy.\<close>

fun truthy :: "string option \<Rightarrow> bool" where
  "truthy None = False"
| "truthy (Some x) = (x \<noteq> [])"

section \<open>Connection manager: reconnection\<close>

text \<open>\<^verbatim>\<open>this.maxReconnectAttempts = 5\<close> is set by the constructor and never assigned again.\<close>

definition maxReconnectAttempts :: nat where
  "maxReconnectAttempts = 5"

definition stopKeepAlive :: "service \<Rightarrow> service \<times> action list" where
  "stopKeepAlive s =
     (if keepAliveInterval s then (s\<lparr>keepAliveInterval := False\<rparr>, [ClearTimer KeepAliveTimer])
      else (s, []))"

definition startKeepAlive :: "service \<Rightarrow> service \<times> action list" where
  "startKeepAlive s =
     (let (s1, t1) = stopKeepAlive s
      in (s1\<lparr>keepAliveInterval := True\<rparr>, t1 @ [SetTimeout KeepAliveTimer 25000]))"

text \<open>\<^verbatim>\<open>_attemptReconnect\<close>: the counter is incremented before the delay is computed; the
  callback that runs after the delay is \<open>reconnect_run\<close> below.\<close>

definition attemptReconnect :: "service \<Rightarrow> service \<times> action list" where
  "attemptReconnect s =
     (if reconnectAttempts s < maxReconnectAttempts then
        (let s1 = s\<lparr>reconnectAttempts := reconnectAttempts s + 1\<rparr>;
             delay = min (1000 * 2 ^ reconnectAttempts s1) 30000
         in (s1, [SetTimeout ReconnectTimer delay]))
      else (s, [Event (OnError MaxReconnectAttempts ''Could not reconnect to Yellow Network'')]))"

text \<open>The three socket handlers installed by \<^verbatim>\<open>_connectToClearNode\<close>.\<close>

definition onopen :: "service \<Rightarrow> service \<times> action list" where
  "onopen s =
     (let (s1, t1) = startKeepAlive (s\<lparr>connected := True, reconnectAttempts := 0\<rparr>)
      in (s1, t1 @ [Event OnConnected]))"

definition onerror :: "service \<Rightarrow> service \<times> action list" where
  "onerror s = (s, [Event (OnError ConnectionError ''Failed to connect to Yellow Network'')])"

definition onclose :: "service \<Rightarrow> service \<times> action list" where
  "onclose s =
     (let (s1, t1) = stopKeepAlive (s\<lparr>connected := False, authenticated := False\<rparr>);
          (s2, t2) = attemptReconnect s1
      in (s2, t1 @ [Event OnDisconnected] @ t2))"

text \<open>The delays of the reconnect timers a trace sets, in order.\<close>

fun delays :: "action list \<Rightarrow> nat list" where
  "delays [] = []"
| "delays (SetTimeout ReconnectTimer d # t) = d # delays t"
| "delays (_ # t) = delays t"

fun terminal_errors :: "action list \<Rightarrow> nat" where
  "terminal_errors [] = 0"
| "terminal_errors (Event (OnError MaxReconnectAttempts _) # t) = Suc (terminal_errors t)"
| "terminal_errors (_ # t) = terminal_errors t"

text \<open>
  What follows a close of the connection.  The close handler runs; if it set a reconnect
  timer, the timer's callback opens a new socket (\<^verbatim>\<open>_connectToClearNode\<close>), and the
  environment decides whether that socket opens or fails.  A socket that fails fires its
  error handler and then its close handler, which is the next round.  A socket that opens
  ends the run (re-authentication belongs to the authenticator).  The list gives the outcome
  of the attempts in order; the sockets are numbered from \<open>n\<close>.
\<close>

datatype conn_outcome = Opened | Failed

fun reconnect_run :: "conn_outcome list \<Rightarrow> socket \<Rightarrow> service \<Rightarrow> service \<times> action list" where
  "reconnect_run [] n s = onclose s"
| "reconnect_run (Opened # os) n s =
     (let (s1, t1) = onclose s in
      if delays t1 = [] then (s1, t1)
      else (let (s2, t2) = onopen (s1\<lparr>ws := Some n\<rparr>) in (s2, t1 @ t2)))"
| "reconnect_run (Failed # os) n s =
     (let (s1, t1) = onclose s in
      if delays t1 = [] then (s1, t1)
      else (let (s2, t2) = onerror (s1\<lparr>ws := Some n\<rparr>);
                (s3, t3) = reconnect_run os (Suc n) s2
            in (s3, t1 @ t2 @ t3)))"

text \<open>The delay the code computes for the attempt numbered \<open>k\<close> (the counter after its
  increment, which is the number the code logs as "reconnect k/5").\<close>

definition backoff :: "nat \<Rightarrow> nat" where
  "backoff k = min (1000 * 2 ^ k) 30000"

section \<open>Session ledger\<close>

text \<open>
  What the SDK and the socket do when \<^verbatim>\<open>sendTip\<close> or \<^verbatim>\<open>createStreamSession\<close> builds
  a message and sends it: the message goes out, the builder throws, or \<^verbatim>\<open>ws.send\<close>
  throws.  An action in a trace records that the call was made; a \<open>WsSend\<close> is recorded
  once the payload was built and \<^verbatim>\<open>ws.send\<close> was called with it.
\<close>

datatype transfer_outcome = Sent | BuildThrows string | SendThrows string

fun transfer_effects :: "transfer_outcome \<Rightarrow> message \<Rightarrow> action list" where
  "transfer_effects Sent m = [WsSend m]"
| "transfer_effects (BuildThrows r) m = []"
| "transfer_effects (SendThrows r) m = [WsSend m]"


text \<open>\<^verbatim>\<open>_toAssetUnits\<close>: \<^verbatim>\<open>Math.floor(dollarAmount * Math.pow(10, decimals))\<close>.  The
  power is taken as correctly rounded (it is exact up to 22 decimals).\<close>

definition toAssetUnits :: "service \<Rightarrow> amount \<Rightarrow> number" where
  "toAssetUnits s dollarAmount =
     floor64 (mul64 dollarAmount (binary64 (10 ^ assetDecimals (config s))))"

text \<open>
  \<^verbatim>\<open>sendTip(tipAmount, streamerAddress, message)\<close>.  The four checks throw before the
  \<^verbatim>\<open>try\<close> block, so they trigger no event.  Inside it, the transfer is attempted only
  with a session signer on an authenticated connection, and whatever the builder or
  \<^verbatim>\<open>ws.send\<close> throws is caught and logged; the ledger is then updated.  With numbers
  for amounts nothing else in the block throws, so its \<^verbatim>\<open>catch\<close> (which triggers
  \<^verbatim>\<open>tip_error\<close>) is not reached.  A tip of \<^verbatim>\<open>NaN\<close> passes both comparisons.  The
  call is one step here: nothing is interleaved with it while it awaits the SDK.
\<close>

definition sendTip ::
  "transfer_outcome \<Rightarrow> amount \<Rightarrow> address \<Rightarrow> string \<Rightarrow> service
     \<Rightarrow> (error + tip_info) \<times> service \<times> action list" where
  "sendTip out tip streamer msg s =
     (case activeStreamSession s of
        None \<Rightarrow> (Inl NoActiveSession, s, [])
      | Some ss \<Rightarrow>
          if streamerAddress ss \<noteq> streamer then (Inl DifferentStreamer, s, [])
          else if tip \<le> 0 then (Inl NonPositiveTip, s, [])
          else if tip > currentBalance ss then (Inl InsufficientBalance, s, [])
          else
            (let commissionAmount = mul64 tip (div64 (commissionRate ss) 100);
                 receives = sub64 tip commissionAmount;
                 t1 = (if sessionSigner s \<and> connected s \<and> authenticated s
                       then transfer_effects out
                              (TransferMsg streamer (defaultAsset (config s)) tip)
                       else []);
                 ss1 = ss\<lparr>spent := add64 (spent ss) tip,
                          currentBalance := sub64 (currentBalance ss) tip\<rparr>;
                 info = \<lparr>tipAmount = tip, amountInUnits = toAssetUnits s tip,
                         commission = commissionAmount, creatorReceives = receives,
                         remainingBalance = currentBalance ss1, totalSpent = spent ss1\<rparr>
             in (Inr info, s\<lparr>activeStreamSession := Some ss1\<rparr>,
                 t1 @ [Event (OnTipSent info streamer msg)])))"

text \<open>
  \<^verbatim>\<open>sendTipBatch\<close>: the calls of \<^verbatim>\<open>sendTip\<close> one after the other, a failed call
  recorded and the loop going on.  Each call comes with what the SDK and the socket do
  on it.  The result keeps the outcome of every call.
\<close>

type_synonym tip_call = "transfer_outcome \<times> amount \<times> address \<times> string"

fun sendTipBatch ::
  "tip_call list \<Rightarrow> service \<Rightarrow> (error + tip_info) list \<times> service \<times> action list" where
  "sendTipBatch [] s = ([], s, [])"
| "sendTipBatch ((out, tip, streamer, msg) # tips) s =
     (case sendTip out tip streamer msg s of
        (r, s1, t1) \<Rightarrow>
          (case sendTipBatch tips s1 of
             (rs, s2, t2) \<Rightarrow> (r # rs, s2, t1 @ t2)))"



text \<open>The error events of a trace.\<close>

fun error_events :: "action list \<Rightarrow> event list" where
  "error_events [] = []"
| "error_events (Event (OnError k m) # t) = OnError k m # error_events t"
| "error_events (_ # t) = error_events t"

section \<open>Channel lifecycle orchestrator\<close>

text \<open>
  The asynchronous flows are sequences of steps over the service: a step returns a value
  or throws, may change the service and appends its effects to the trace.  \<open>seq\<close> is
  \<^verbatim>\<open>await\<close> followed by the rest of the function, \<open>try_catch\<close> a \<^verbatim>\<open>try\<close> block
  with its handler.
\<close>

type_synonym 'a step = "service \<Rightarrow> (error + 'a) \<times> service \<times> action list"

definition ret :: "'a \<Rightarrow> 'a step" where
  "ret x = (\<lambda>s. (Inr x, s, []))"

definition throw :: "error \<Rightarrow> 'a step" where
  "throw e = (\<lambda>s. (Inl e, s, []))"

definition seq :: "'a step \<Rightarrow> ('a \<Rightarrow> 'b step) \<Rightarrow> 'b step" where
  "seq m f = (\<lambda>s. case m s of
       (Inl e, s1, t1) \<Rightarrow> (Inl e, s1, t1)
     | (Inr x, s1, t1) \<Rightarrow> (case f x s1 of (r, s2, t2) \<Rightarrow> (r, s2, t1 @ t2)))"

definition try_catch :: "'a step \<Rightarrow> (error \<Rightarrow> 'a step) \<Rightarrow> 'a step" where
  "try_catch m h = (\<lambda>s. case m s of
       (Inl e, s1, t1) \<Rightarrow> (case h e s1 of (r, s2, t2) \<Rightarrow> (r, s2, t1 @ t2))
     | (Inr x, s1, t1) \<Rightarrow> (Inr x, s1, t1))"

definition act :: "action \<Rightarrow> unit step" where
  "act a = (\<lambda>s. (Inr (), s, [a]))"

definition assign :: "(service \<Rightarrow> service) \<Rightarrow> unit step" where
  "assign f = (\<lambda>s. (Inr (), f s, []))"

text \<open>A call to a collaborator: the call is recorded, then it returns or throws as the
  environment says.  A message builder of the SDK is a call that leaves no effect, and so
  is a pure library function that may throw (\<^verbatim>\<open>parseUnits\<close>).\<close>

definition call :: "action \<Rightarrow> string + 'a \<Rightarrow> 'a step" where
  "call a r = (\<lambda>s. (case r of Inl m \<Rightarrow> Inl (Thrown m) | Inr x \<Rightarrow> Inr x, s, [a]))"

definition call0 :: "action \<Rightarrow> string option \<Rightarrow> unit step" where
  "call0 a r = (\<lambda>s. (case r of Some m \<Rightarrow> Inl (Thrown m) | None \<Rightarrow> Inr (), s, [a]))"

definition build :: "string option \<Rightarrow> unit step" where
  "build r = (\<lambda>s. (case r of Some m \<Rightarrow> Inl (Thrown m) | None \<Rightarrow> Inr (), s, []))"

definition compute :: "string + 'a \<Rightarrow> 'a step" where
  "compute r = (\<lambda>s. (case r of Inl m \<Rightarrow> Inl (Thrown m) | Inr x \<Rightarrow> Inr x, s, []))"

text \<open>
  The places where the flows call a collaborator, and the environment: what each call
  returns there.  \<open>rpc_reply\<close> is the outcome of \<^verbatim>\<open>_sendRPC\<close> (the correlator below
  produces it): rejected (an error from the node, the timeout, or \<^verbatim>\<open>ws.send\<close>
  throwing), resolved with a response that lacks a field the flow reads from it next (a
  \<^verbatim>\<open>TypeError\<close> then), or resolved with a complete response.  \<open>balance_polls\<close> is the
  number of ledger-balance requests the 10 s poll sent while the deposit flow waited for
  the node's confirmation.
\<close>

datatype site =
    StaleClose | StaleWithdraw | PreDrain | ApproveStage | DepositStage | CreateStage
  | ResizeStage | AllocateStage | CloseStage | WithdrawStage
  | CleanupClose channel_id | CleanupDrain | CleanupLedger

datatype rpc_result = RpcRejected string | RpcMalformed | RpcOk

record env =
  build_message :: "site \<Rightarrow> string option"
  rpc_reply :: "site \<Rightarrow> rpc_result"
  socket_send :: "site \<Rightarrow> string option"
  account_balance :: "site \<Rightarrow> string + nat"
  submit :: "site \<Rightarrow> string + tx_hash"
  receipt :: "site \<Rightarrow> string option"
  allowance :: "string + nat"
  channel_data :: "site \<Rightarrow> string option"
  construct_client :: "string option"
  parse_units :: "amount \<Rightarrow> nat \<Rightarrow> string + int"
  created_channel :: channel_id
  format_units :: "nat \<Rightarrow> string"
  balance_polls :: nat

definition getSupportedChainIds :: "service \<Rightarrow> nat list" where
  "getSupportedChainIds s =
     map chainId (case networkConfig s of None \<Rightarrow> [] | Some ns \<Rightarrow> ns)"

definition isChainSupported :: "service \<Rightarrow> nat \<Rightarrow> bool" where
  "isChainSupported s c = (c \<in> set (getSupportedChainIds s))"

definition findNetworkForChain :: "service \<Rightarrow> nat \<Rightarrow> network option" where
  "findNetworkForChain s c =
     find (\<lambda>n. chainId n = c) (case networkConfig s of None \<Rightarrow> [] | Some ns \<Rightarrow> ns)"

text \<open>\<^verbatim>\<open>_sendRPC\<close> as the flows see it, and the on-chain call built from its response.\<close>

definition sendRPC :: "env \<Rightarrow> site \<Rightarrow> message \<Rightarrow> bool step" where
  "sendRPC e k m =
     seq (act (WsSend m)) (\<lambda>_.
       case rpc_reply e k of
         RpcRejected r \<Rightarrow> throw (Thrown r)
       | RpcMalformed \<Rightarrow> ret False
       | RpcOk \<Rightarrow> ret True)"

definition onchain :: "env \<Rightarrow> site \<Rightarrow> bool \<Rightarrow> tx \<Rightarrow> tx_hash step" where
  "onchain e k ok t =
     (if ok then call (Submit t) (submit e k) else throw (Thrown ''TypeError''))"

text \<open>Reading the custody balance of a token and withdrawing it when it is positive, the
  receipt awaited: the block the flows share.  It returns the withdrawal's hash.\<close>

definition withdraw_custody ::
  "env \<Rightarrow> site \<Rightarrow> address option \<Rightarrow> (nat \<times> tx_hash) option step" where
  "withdraw_custody e k tok =
     seq (call (Read (AccountBalanceRead tok)) (account_balance e k)) (\<lambda>b.
       if b > 0 then
         seq (call (Submit (WithdrawalTx tok b)) (submit e k)) (\<lambda>w.
         seq (call0 (Await (ReceiptWait w)) (receipt e k)) (\<lambda>_.
         ret (Some (b, w))))
       else ret None)"

definition ensure_client :: "env \<Rightarrow> client \<Rightarrow> unit step" where
  "ensure_client e c =
     (\<lambda>s. if nitroliteClient s = None
          then seq (call0 (NewClient c) (construct_client e))
                 (\<lambda>_. assign (\<lambda>s. s\<lparr>nitroliteClient := Some c\<rparr>)) s
          else ret () s)"

text \<open>\<^verbatim>\<open>_closeStaleChannel\<close>.\<close>

definition closeStaleChannel :: "env \<Rightarrow> channel_id \<Rightarrow> client \<Rightarrow> unit step" where
  "closeStaleChannel e ch c =
     seq (ensure_client e c) (\<lambda>_.
     seq (build (build_message e StaleClose)) (\<lambda>_.
     seq (sendRPC e StaleClose (CloseChannelMsg ch)) (\<lambda>ok.
     seq (onchain e StaleClose ok CloseChannelTx) (\<lambda>_.
     seq (try_catch
            (\<lambda>s. if truthy (tokenAddress s)
                 then seq (withdraw_custody e StaleWithdraw (tokenAddress s)) (\<lambda>_. ret ()) s
                 else ret () s)
            (\<lambda>_. ret ())) (\<lambda>_.
     assign (\<lambda>s. s\<lparr>nitroliteClient := None\<rparr>))))))"

text \<open>\<^verbatim>\<open>deepCleanup\<close>.  The result object is threaded through the steps.\<close>

record cleanup_result =
  channelsClosed :: "(channel_id \<times> tx_hash) list"
  custodyDrained :: "(string \<times> tx_hash option) option"
  ledgerBalance :: "unit option"
  errors :: "string list"

fun close_channels :: "env \<Rightarrow> channel_id list \<Rightarrow> cleanup_result \<Rightarrow> cleanup_result step" where
  "close_channels e [] res = ret res"
| "close_channels e (ch # chs) res =
     seq (try_catch
            (seq (build (build_message e (CleanupClose ch))) (\<lambda>_.
             seq (sendRPC e (CleanupClose ch) (CloseChannelMsg ch)) (\<lambda>ok.
             seq (onchain e (CleanupClose ch) ok CloseChannelTx) (\<lambda>h.
             ret (res\<lparr>channelsClosed := channelsClosed res @ [(ch, h)]\<rparr>)))))
            (\<lambda>err. ret (res\<lparr>errors := errors res @
                         [''close '' @ ch @ '': '' @ error_message ByCleanup err]\<rparr>)))
         (\<lambda>res1. close_channels e chs res1)"

definition channels_to_close :: "service \<Rightarrow> channel_id list" where
  "channels_to_close s =
     remdups ((if truthy (channelId s) then [the (channelId s)] else []) @
              (if truthy (existingChannelId s) then [the (existingChannelId s)] else []))"

definition deepCleanup :: "env \<Rightarrow> nat \<Rightarrow> address \<Rightarrow> cleanup_result step" where
  "deepCleanup e chain tok =
     (\<lambda>s. if \<not> connected s \<or> \<not> authenticated s then throw NotConnected s
      else if \<not> publicClient s then throw NoPublicClient s
      else case findNetworkForChain s chain of
        None \<Rightarrow> throw (ChainUnsupported chain (getSupportedChainIds s)) s
      | Some n \<Rightarrow>
         (seq (assign (\<lambda>s. s\<lparr>tokenAddress := Some tok\<rparr>)) (\<lambda>_.
          seq (act (Event (OnDepositProgress 1 4 False))) (\<lambda>_.
          seq (ensure_client e \<lparr>clientCustody = custodyAddress n,
                 clientAdjudicator = adjudicatorAddress n, clientChainId = chain\<rparr>) (\<lambda>_.
          seq (\<lambda>s. ret (channels_to_close s) s) (\<lambda>chs.
          seq (act (Event (OnDepositProgress 2 4 False))) (\<lambda>_.
          seq (close_channels e chs
                 \<lparr>channelsClosed = [], custodyDrained = None, ledgerBalance = None,
                  errors = []\<rparr>) (\<lambda>res1.
          seq (act (Event (OnDepositProgress 3 4 False))) (\<lambda>_.
          seq (try_catch
                 (seq (call (Read (AccountBalanceRead (Some tok)))
                         (account_balance e CleanupDrain)) (\<lambda>b.
                    if b > 0 then
                      seq (call (Submit (WithdrawalTx (Some tok) b))
                             (submit e CleanupDrain)) (\<lambda>w.
                      seq (call0 (Await (ReceiptWait w)) (receipt e CleanupDrain)) (\<lambda>_.
                      ret (res1\<lparr>custodyDrained := Some (format_units e b, Some w)\<rparr>)))
                    else ret (res1\<lparr>custodyDrained := Some (''0'', None)\<rparr>)))
                 (\<lambda>err. ret (res1\<lparr>errors := errors res1 @
                              [''custody drain: '' @ error_message ByCleanup err]\<rparr>))) (\<lambda>res2.
          seq (act (Event (OnDepositProgress 4 4 False))) (\<lambda>_.
          seq (try_catch
                 (seq (build (build_message e CleanupLedger)) (\<lambda>_.
                  seq (call0 (WsSend GetLedgerBalancesMsg) (socket_send e CleanupLedger)) (\<lambda>_.
                  act (Await (Sleep 3000)))))
                 (\<lambda>_. ret ())) (\<lambda>_.
          seq (assign (\<lambda>s. s\<lparr>channelId := None, existingChannelId := None,
                   isDeposited := False, nitroliteClient := None,
                   activeStreamSession := None\<rparr>)) (\<lambda>_.
          seq (act (Event (OnDepositProgress 4 4 True))) (\<lambda>_.
          ret res2))))))))))))) s)"

text \<open>\<^verbatim>\<open>closeChannelAndWithdraw\<close>.  \<^verbatim>\<open>withdrawHash\<close> is assigned as soon as the
  withdrawal call returns, so it is kept when the wait for the receipt throws.\<close>

record close_result =
  closeTxHash :: "tx_hash option"
  withdrawHash :: "tx_hash option"

definition close_stage :: "env \<Rightarrow> nat \<Rightarrow> tx_hash option step" where
  "close_stage e steps =
     (\<lambda>s. if truthy (channelId s) then
            (seq (act (Event (OnWithdrawProgress 1 steps False))) (\<lambda>_.
             seq (build (build_message e CloseStage)) (\<lambda>_.
             seq (sendRPC e CloseStage (CloseChannelMsg (the (channelId s)))) (\<lambda>ok.
             seq (onchain e CloseStage ok CloseChannelTx) (\<lambda>h.
             ret (Some h)))))) s
          else ret None s)"

definition withdraw_remaining :: "env \<Rightarrow> tx_hash option step" where
  "withdraw_remaining e =
     (\<lambda>s. try_catch
            (seq (call (Read (AccountBalanceRead (tokenAddress s)))
                    (account_balance e WithdrawStage)) (\<lambda>b.
               if b > 0 then
                 seq (call (Submit (WithdrawalTx (tokenAddress s) b))
                        (submit e WithdrawStage)) (\<lambda>w.
                 try_catch
                   (seq (call0 (Await (ReceiptWait w)) (receipt e WithdrawStage))
                      (\<lambda>_. ret (Some w)))
                   (\<lambda>_. ret (Some w)))
               else ret None))
            (\<lambda>_. ret None) s)"

definition closeChannelAndWithdraw :: "env \<Rightarrow> close_result option step" where
  "closeChannelAndWithdraw e =
     (\<lambda>s. if nitroliteClient s = None then ret None s
      else
        try_catch
          (seq (\<lambda>s. ret (if truthy (channelId s) then 2 else (1::nat)) s) (\<lambda>steps.
           seq (close_stage e steps) (\<lambda>closeHash.
           seq (act (Event (OnWithdrawProgress steps steps False))) (\<lambda>_.
           seq (withdraw_remaining e) (\<lambda>wHash.
           seq (assign (\<lambda>s. s\<lparr>channelId := None, isDeposited := False\<rparr>)) (\<lambda>_.
           seq (act (Event (OnWithdrawProgress steps steps True))) (\<lambda>_.
           ret (Some \<lparr>closeTxHash = closeHash, withdrawHash = wHash\<rparr>))))))))
          (\<lambda>err. seq (act (Event (OnError WithdrawError (error_message ByWithdraw err))))
                   (\<lambda>_. throw err)) s)"

text \<open>
  \<^verbatim>\<open>depositAndOpenChannel\<close>, stage by stage.  The three bounded waits never throw
  (their timers resolve them), so they are effects only.
\<close>

definition deposit_precheck :: "env \<Rightarrow> client \<Rightarrow> unit step" where
  "deposit_precheck e c =
     (\<lambda>s. let stale = (if truthy (channelId s) then channelId s else existingChannelId s)
      in if truthy stale then
           (seq (act (Event (OnDepositProgress 0 7 False))) (\<lambda>_.
            seq (try_catch (closeStaleChannel e (the stale) c) (\<lambda>_. ret ())) (\<lambda>_.
            assign (\<lambda>s. s\<lparr>channelId := None, existingChannelId := None,
                           isDeposited := False\<rparr>)))) s
         else ret () s)"

definition deposit_setup :: "env \<Rightarrow> client \<Rightarrow> address \<Rightarrow> unit step" where
  "deposit_setup e c tok =
     seq (act (Event (OnDepositProgress 1 7 False))) (\<lambda>_.
     seq (call0 (NewClient c) (construct_client e)) (\<lambda>_.
     seq (assign (\<lambda>s. s\<lparr>nitroliteClient := Some c\<rparr>)) (\<lambda>_.
     try_catch (seq (withdraw_custody e PreDrain (Some tok)) (\<lambda>_. ret ()))
       (\<lambda>_. ret ()))))"

definition deposit_approve :: "env \<Rightarrow> address \<Rightarrow> address \<Rightarrow> units \<Rightarrow> unit step" where
  "deposit_approve e tok custody amountUnits =
     seq (act (Event (OnDepositProgress 2 7 False))) (\<lambda>_.
     seq (\<lambda>s. call (Read (AllowanceRead tok (userAddress s) custody)) (allowance e) s)
       (\<lambda>currentAllowance.
          if int currentAllowance < amountUnits then
            seq (act (Event (OnDepositProgress 2 7 False))) (\<lambda>_.
            seq (call (Submit (ApproveTx tok custody amountUnits))
                   (submit e ApproveStage)) (\<lambda>approveHash.
            call0 (Await (ReceiptWait approveHash)) (receipt e ApproveStage)))
          else ret ()))"

definition deposit_deposit :: "env \<Rightarrow> address \<Rightarrow> units \<Rightarrow> tx_hash step" where
  "deposit_deposit e tok amountUnits =
     seq (act (Event (OnDepositProgress 3 7 False))) (\<lambda>_.
     seq (call (Submit (DepositTx tok amountUnits)) (submit e DepositStage)) (\<lambda>depositHash.
     seq (call0 (Await (ReceiptWait depositHash)) (receipt e DepositStage)) (\<lambda>_.
     ret depositHash)))"

definition deposit_create :: "env \<Rightarrow> nat \<Rightarrow> address \<Rightarrow> (channel_id \<times> tx_hash) step" where
  "deposit_create e chain tok =
     seq (act (Event (OnDepositProgress 4 7 False))) (\<lambda>_.
     seq (build (build_message e CreateStage)) (\<lambda>_.
     seq (sendRPC e CreateStage (CreateChannelMsg chain tok)) (\<lambda>ok.
     seq (onchain e CreateStage ok CreateChannelTx) (\<lambda>createTxHash.
     seq (assign (\<lambda>s. s\<lparr>channelId := Some (created_channel e)\<rparr>)) (\<lambda>_.
     seq (act (Await (ChannelReadyWait (created_channel e) 30000))) (\<lambda>_.
     ret (created_channel e, createTxHash)))))))"

definition deposit_resize :: "env \<Rightarrow> channel_id \<Rightarrow> units \<Rightarrow> tx_hash step" where
  "deposit_resize e ch amountUnits =
     seq (act (Event (OnDepositProgress 5 7 False))) (\<lambda>_.
     seq (build (build_message e ResizeStage)) (\<lambda>_.
     seq (\<lambda>s. sendRPC e ResizeStage (ResizeMsg ch amountUnits (userAddress s)) s) (\<lambda>ok.
     seq (call0 (Read (ChannelDataRead ch)) (channel_data e ResizeStage)) (\<lambda>_.
     seq (onchain e ResizeStage ok (ResizeChannelTx ch)) (\<lambda>resizeTxHash.
     seq (act (Await (ResizeProcessedWait ch 30000))) (\<lambda>_.
     ret resizeTxHash))))))"

definition deposit_allocate :: "env \<Rightarrow> channel_id \<Rightarrow> units \<Rightarrow> tx_hash step" where
  "deposit_allocate e ch amountUnits =
     seq (act (Event (OnDepositProgress 6 7 False))) (\<lambda>_.
     seq (build (build_message e AllocateStage)) (\<lambda>_.
     seq (\<lambda>s. sendRPC e AllocateStage (AllocateMsg ch amountUnits (brokerAddress s)) s) (\<lambda>ok.
     seq (call0 (Read (ChannelDataRead ch)) (channel_data e AllocateStage)) (\<lambda>_.
     onchain e AllocateStage ok (ResizeChannelTx ch)))))"

definition deposit_confirm :: "env \<Rightarrow> unit step" where
  "deposit_confirm e =
     seq (act (Event (OnDepositProgress 7 7 False))) (\<lambda>_.
     seq (act (Await (DepositConfirmedWait 120000))) (\<lambda>_.
     seq (\<lambda>s. (Inr (), s, replicate (balance_polls e) (WsSend GetLedgerBalancesMsg))) (\<lambda>_.
     seq (assign (\<lambda>s. s\<lparr>isDeposited := True\<rparr>)) (\<lambda>_.
     act (Event (OnDepositProgress 7 7 True))))))"

record deposit_result =
  depositHash :: tx_hash
  depositChannelId :: channel_id
  createTxHash :: tx_hash
  resizeTxHash :: tx_hash
  allocateTxHash :: tx_hash

text \<open>The stages after the three checks, for the network entry found.\<close>

definition deposit_stages ::
  "env \<Rightarrow> amount \<Rightarrow> nat \<Rightarrow> address \<Rightarrow> network \<Rightarrow> deposit_result step" where
  "deposit_stages e amt chain tok n =
     (let c = \<lparr>clientCustody = custodyAddress n, clientAdjudicator = adjudicatorAddress n,
               clientChainId = chain\<rparr>
      in
     seq (assign (\<lambda>s. s\<lparr>tokenAddress := Some tok\<rparr>)) (\<lambda>_.
     seq (\<lambda>s. compute (parse_units e amt (assetDecimals (config s))) s) (\<lambda>amountUnits.
     seq (deposit_precheck e c) (\<lambda>_.
     seq (deposit_setup e c tok) (\<lambda>_.
     seq (deposit_approve e tok (custodyAddress n) amountUnits) (\<lambda>_.
     seq (deposit_deposit e tok amountUnits) (\<lambda>dHash.
     seq (deposit_create e chain tok) (\<lambda>(ch, cHash).
     seq (deposit_resize e ch amountUnits) (\<lambda>rHash.
     seq (deposit_allocate e ch amountUnits) (\<lambda>aHash.
     seq (deposit_confirm e) (\<lambda>_.
     ret \<lparr>depositHash = dHash, depositChannelId = ch, createTxHash = cHash,
          resizeTxHash = rHash, allocateTxHash = aHash\<rparr>)))))))))))"

definition depositAndOpenChannel ::
  "env \<Rightarrow> amount \<Rightarrow> nat \<Rightarrow> address \<Rightarrow> deposit_result step" where
  "depositAndOpenChannel e amt chain tok =
     (\<lambda>s. if \<not> connected s \<or> \<not> authenticated s then throw NotConnected s
      else if \<not> publicClient s then throw NoPublicClient s
      else case findNetworkForChain s chain of
        None \<Rightarrow> throw (ChainUnsupported chain (getSupportedChainIds s)) s
      | Some n \<Rightarrow> deposit_stages e amt chain tok n s)"

text \<open>The on-chain transactions a trace submits, the messages it sends, the chain reads
  it makes and the receipts it waits for.\<close>

fun txs :: "action list \<Rightarrow> tx list" where
  "txs [] = []"
| "txs (Submit t # as) = t # txs as"
| "txs (_ # as) = txs as"

fun sent :: "action list \<Rightarrow> message list" where
  "sent [] = []"
| "sent (WsSend m # as) = m # sent as"
| "sent (_ # as) = sent as"

fun reads :: "action list \<Rightarrow> chain_read list" where
  "reads [] = []"
| "reads (Read r # as) = r # reads as"
| "reads (_ # as) = reads as"

fun receipts :: "action list \<Rightarrow> tx_hash list" where
  "receipts [] = []"
| "receipts (Await (ReceiptWait h) # as) = h # receipts as"
| "receipts (_ # as) = receipts as"

fun events :: "action list \<Rightarrow> event list" where
  "events [] = []"
| "events (Event ev # as) = ev # events as"
| "events (_ # as) = events as"

text \<open>An environment in which every call succeeds, the custody balance is \<open>b\<close> and the
  allowance \<open>a\<close>; and a service that is connected and authenticated, with a public
  client and the configuration of one network (chain 8453).  They serve as concrete
  inputs.\<close>

definition calm_env :: "nat \<Rightarrow> nat \<Rightarrow> env" where
  "calm_env b a = \<lparr>build_message = (\<lambda>_. None), rpc_reply = (\<lambda>_. RpcOk),
     socket_send = (\<lambda>_. None), account_balance = (\<lambda>_. Inr b),
     submit = (\<lambda>_. Inr ''0xhash''), receipt = (\<lambda>_. None), allowance = Inr a,
     channel_data = (\<lambda>_. None), construct_client = None,
     parse_units = (\<lambda>x d. case x of Num a \<Rightarrow> Inr \<lfloor>a * 10 ^ d\<rfloor> | _ \<Rightarrow> Inl ''not a number''),
     created_channel = ''0xchannel'',
     format_units = (\<lambda>_. ''units''), balance_polls = 0\<rparr>"

definition ready_service :: service where
  "ready_service = new_service\<lparr>connected := True, authenticated := True,
     userAddress := Some ''0xuser'', walletClient := True, publicClient := True,
     sessionKey := True, sessionSigner := True, brokerAddress := Some ''0xbroker'',
     networkConfig := Some [\<lparr>chainId = 8453, custodyAddress = ''0xcustody'',
        adjudicatorAddress = ''0xadjudicator''\<rparr>]\<rparr>"

definition base_client :: client where
  "base_client = \<lparr>clientCustody = ''0xcustody'', clientAdjudicator = ''0xadjudicator'',
     clientChainId = 8453\<rparr>"

section \<open>RPC correlator\<close>

text \<open>
  \<^verbatim>\<open>_pendingRequests\<close> is a JavaScript \<^verbatim>\<open>Map\<close>: it iterates in the order in which its
  keys were first added.  It is an association list in that order; \<^verbatim>\<open>set\<close> is
  \<open>AList.update\<close> (an existing key keeps its place, a new one goes last), \<^verbatim>\<open>delete\<close> is
  \<open>AList.delete\<close>, \<^verbatim>\<open>get\<close> is \<open>map_of\<close>.

  \<^verbatim>\<open>_sendRPC\<close>, seen from the correlator: the entry is registered under the expected
  method with a new promise \<open>p\<close> and timer \<open>tid\<close>, and the message is sent; when
  \<^verbatim>\<open>ws.send\<close> throws, the promise is rejected (the entry stays until its timer fires).
  The timer deletes whatever entry is under the method and rejects the promise.
\<close>

definition sendRPC_begin ::
  "nat \<Rightarrow> nat \<Rightarrow> message \<Rightarrow> rpc_method \<Rightarrow> nat \<Rightarrow> string option \<Rightarrow> service
     \<Rightarrow> service \<times> action list" where
  "sendRPC_begin p tid m expected timeout thrown s =
     (s\<lparr>pendingRequests :=
          AList.update expected \<lparr>promise = p, timeoutId = tid\<rparr> (pendingRequests s)\<rparr>,
      [SetTimeout (RpcTimer tid) timeout, WsSend m] @
      (case thrown of None \<Rightarrow> [] | Some r \<Rightarrow> [Rejected p r]))"

definition sendRPC_timeout :: "nat \<Rightarrow> rpc_method \<Rightarrow> service \<Rightarrow> service \<times> action list" where
  "sendRPC_timeout p expected s =
     (s\<lparr>pendingRequests := AList.delete expected (pendingRequests s)\<rparr>,
      [Rejected p ''RPC timed out''])"

text \<open>
  An inbound frame: not JSON, JSON that the SDK's parser refuses (it throws, and the
  handler's outer \<^verbatim>\<open>catch\<close> logs), or a parsed response.  Of the response the model
  keeps the fields the handlers read; an absent field is \<open>None\<close> (or the empty list
  where the handler defaults to one), and amounts are the numbers \<^verbatim>\<open>parseFloat\<close>
  yields (\<^verbatim>\<open>NaN\<close> for a text that is no number).
\<close>

record channel_info =
  infoChannelId :: "string option"
  infoChannel_id :: "string option"
  infoStatus :: string

record response =
  rmethod :: rpc_method
  rerror :: "string option"
  rsuccess :: "bool option"
  rjwtToken :: "string option"
  rbalanceUpdates :: "(string \<times> amount) list option"
  rledgerBalances :: "(string \<times> amount) list option"
  rchannels :: "channel_info list"
  rassets :: "asset list"
  rpushChannelId :: "string option"
  rpushChannel_id :: "string option"
  rpushStatus :: "string option"
  rpushAmount :: "int option"

datatype inbound = NonJson | Unparsable | Parsed response

text \<open>\<^verbatim>\<open>x || y\<close> on two string-or-absent values, and \<^verbatim>\<open>params?.error || dflt\<close>.\<close>

definition or_else :: "string option \<Rightarrow> string option \<Rightarrow> string option" where
  "or_else x y = (if truthy x then x else y)"

definition reason_or :: "response \<Rightarrow> string \<Rightarrow> string" where
  "reason_or r dflt = (if truthy (rerror r) then the (rerror r) else dflt)"

definition is_open :: "string \<Rightarrow> bool" where
  "is_open st = (st = ''open'' \<or> st = ''active'')"

text \<open>The resolvers of the three bounded waits, as \<^verbatim>\<open>_handleMessage\<close> calls them.\<close>

definition resolve_channel_ready :: "string option \<Rightarrow> service \<Rightarrow> service \<times> action list" where
  "resolve_channel_ready confirmed s =
     (if confirmed \<noteq> None \<and> confirmed = channelReadyResolve s
      then (s\<lparr>channelReadyResolve := None\<rparr>, [ClearTimer ChannelReadyTimer, WaitOver ChannelReady])
      else (s, []))"

definition resolve_resize :: "string option \<Rightarrow> service \<Rightarrow> service \<times> action list" where
  "resolve_resize confirmed s =
     (if confirmed \<noteq> None \<and> confirmed = resizeProcessedResolve s
      then (s\<lparr>resizeProcessedResolve := None\<rparr>, [ClearTimer ResizeTimer, WaitOver ResizeProcessed])
      else (s, []))"

definition balance_push :: "(string \<times> amount) list option \<Rightarrow> service \<Rightarrow> service \<times> action list" where
  "balance_push balances s =
     (case balances of
        None \<Rightarrow> (s, [])
      | Some bs \<Rightarrow>
          (case find (\<lambda>b. fst b = defaultAsset (config s)) bs of
             None \<Rightarrow> (s, [])
           | Some entry \<Rightarrow>
               (let bal = snd entry;
                    s1 = (case activeStreamSession s of
                            None \<Rightarrow> s
                          | Some ss \<Rightarrow>
                              s\<lparr>activeStreamSession := Some (ss\<lparr>currentBalance := bal\<rparr>)\<rparr>)
                in if depositConfirmedResolve s1 \<and> bal > 0
                   then (s1\<lparr>depositConfirmedResolve := False\<rparr>,
                         [ClearTimer DepositTimer, ClearTimer PollTimer,
                          WaitOver DepositConfirmed])
                   else (s1, []))))"

definition channels_push :: "channel_info list \<Rightarrow> service \<Rightarrow> service \<times> action list" where
  "channels_push chs s =
     (let s1 = (if chs \<noteq> [] \<and> \<not> truthy (channelId s) then
                  (case find (\<lambda>ch. is_open (infoStatus ch)) chs of
                     None \<Rightarrow> s
                   | Some ch \<Rightarrow>
                       s\<lparr>existingChannelId := or_else (infoChannelId ch) (infoChannel_id ch)\<rparr>)
                else s)
      in if channelReadyResolve s1 \<noteq> None then
           (case find (\<lambda>ch. is_open (infoStatus ch) \<and>
                       (infoChannelId ch \<noteq> None \<and> infoChannelId ch = channelId s1 \<or>
                        infoChannel_id ch \<noteq> None \<and> infoChannel_id ch = channelId s1)) chs of
              None \<Rightarrow> (s1, [])
            | Some ch \<Rightarrow>
                resolve_channel_ready (or_else (infoChannelId ch) (infoChannel_id ch)) s1)
         else (s1, []))"

definition other_push :: "response \<Rightarrow> service \<Rightarrow> service \<times> action list" where
  "other_push r s =
     (let msgChId = or_else (rpushChannelId r) (rpushChannel_id r);
          (s1, t1) =
            (if channelReadyResolve s \<noteq> None \<and> truthy (channelId s)
                \<and> msgChId = channelId s
                \<and> (rpushStatus r = Some ''open'' \<or> rpushStatus r = Some ''active'')
             then resolve_channel_ready msgChId s else (s, []));
          (s2, t2) =
            (if resizeProcessedResolve s1 \<noteq> None \<and> truthy (channelId s1)
                \<and> msgChId = channelId s1 \<and> rpushStatus r = Some ''open''
                \<and> (case rpushAmount r of None \<Rightarrow> False | Some a \<Rightarrow> a > 0)
             then resolve_resize msgChId s1 else (s1, []))
      in (s2, t1 @ t2))"

text \<open>The \<^verbatim>\<open>switch\<close> of \<^verbatim>\<open>_handleMessage\<close>: the standing handler of each kind.\<close>

definition standing_handler :: "response \<Rightarrow> service \<Rightarrow> service \<times> action list" where
  "standing_handler r s =
     (case rmethod r of
        Transfer \<Rightarrow> (s, [])
      | BalanceUpdate \<Rightarrow>
          (let (s1, t1) = balance_push
                 (case rbalanceUpdates r of Some b \<Rightarrow> Some b | None \<Rightarrow> rledgerBalances r) s
           in (s1, t1 @ [Event OnBalanceUpdate]))
      | GetLedgerBalances \<Rightarrow>
          (let (s1, t1) = balance_push (rledgerBalances r) s
           in (s1, t1 @ [Event OnBalanceUpdate]))
      | ChannelsUpdate \<Rightarrow> channels_push (rchannels r) s
      | Assets \<Rightarrow> (s\<lparr>assets := rassets r\<rparr>, [])
      | Error \<Rightarrow>
          (s, [Event (OnError ClearnodeError (reason_or r ''Unknown ClearNode error''))])
      | AuthChallenge \<Rightarrow> (s, [])
      | AuthVerify \<Rightarrow> (s, [])
      | _ \<Rightarrow> other_push r s)"

text \<open>
  \<^verbatim>\<open>_handleMessage\<close>.  A response whose method has a pending entry resolves that entry.
  Otherwise an \<^verbatim>\<open>Error\<close> response, when the map is not empty, goes to the entry
  \<^verbatim>\<open>entries[entries.length - 1]\<close>, the last in iteration order.  Everything else goes
  to the standing handlers.
\<close>

definition handleMessage :: "inbound \<Rightarrow> service \<Rightarrow> service \<times> action list" where
  "handleMessage d s =
     (case d of
        NonJson \<Rightarrow> (s, [])
      | Unparsable \<Rightarrow> (s, [])
      | Parsed r \<Rightarrow>
          (case map_of (pendingRequests s) (rmethod r) of
             Some entry \<Rightarrow>
               (s\<lparr>pendingRequests := AList.delete (rmethod r) (pendingRequests s)\<rparr>,
                [ClearTimer (RpcTimer (timeoutId entry)), Resolved (promise entry) (rmethod r)])
           | None \<Rightarrow>
               if rmethod r = Error \<and> pendingRequests s \<noteq> [] then
                 (let (m, entry) = last (pendingRequests s)
                  in (s\<lparr>pendingRequests := AList.delete m (pendingRequests s)\<rparr>,
                      [ClearTimer (RpcTimer (timeoutId entry)),
                       Rejected (promise entry) (reason_or r ''RPC error'')]))
               else standing_handler r s))"

text \<open>\<^verbatim>\<open>disconnect\<close>.\<close>

definition disconnect :: "service \<Rightarrow> service \<times> action list" where
  "disconnect s =
     (let (s1, t1) = stopKeepAlive s;
          t2 = (case ws s1 of None \<Rightarrow> [] | Some k \<Rightarrow> [CloseSocket k]);
          t3 = map (\<lambda>entry. ClearTimer (RpcTimer (timeoutId (snd entry)))) (pendingRequests s1)
      in (s1\<lparr>ws := None, connected := False, authenticated := False, channelId := None,
              nitroliteClient := None, isDeposited := False, pendingRequests := []\<rparr>,
          t1 @ t2 @ t3))"

text \<open>
  The life of a session's ledger: calls of \<^verbatim>\<open>sendTip\<close> (each with what the SDK and the
  socket do on it) and, between them, frames from the node handled by
  \<^verbatim>\<open>_handleMessage\<close>.  \<^verbatim>\<open>createStreamSession\<close> itself asks the node for the ledger
  balances, and the answer, like every balance update, overwrites the remaining balance
  of the active session.
\<close>

datatype ledger_event = Tip transfer_outcome amount address string | Frame inbound










text \<open>A response with nothing but its method and error text, for concrete inputs.\<close>

definition bare_response :: "rpc_method \<Rightarrow> string option \<Rightarrow> response" where
  "bare_response m err = \<lparr>rmethod = m, rerror = err, rsuccess = None, rjwtToken = None,
     rbalanceUpdates = None, rledgerBalances = None, rchannels = [], rassets = [],
     rpushChannelId = None, rpushChannel_id = None, rpushStatus = None,
     rpushAmount = None\<rparr>"

section \<open>Authenticator: the handshake's listeners and timer\<close>

text \<open>
  \<^verbatim>\<open>_authenticateWithNitrolite\<close> arms a 30 s timer and registers two temporary
  listeners on the socket \<^verbatim>\<open>this.ws\<close>: one for \<^verbatim>\<open>message\<close>, one for \<^verbatim>\<open>close\<close>.
  The world around the service holds what the browser holds: the listeners registered on
  each socket, the armed timers, and how each handshake's promise was settled (a promise
  settles once; later calls of \<^verbatim>\<open>resolve\<close> or \<^verbatim>\<open>reject\<close> change nothing).  Handshakes
  are numbered.
\<close>

datatype listener = ServiceMessage | AuthMessage nat | AuthClose nat

record world =
  svc :: service
  listeners :: "(socket \<times> listener) list"
  timers :: "timer list"
  settled :: "(nat \<times> (error + unit)) list"

definition settle :: "nat \<Rightarrow> error + unit \<Rightarrow> world \<Rightarrow> world" where
  "settle h r w =
     (if map_of (settled w) h = None then w\<lparr>settled := settled w @ [(h, r)]\<rparr> else w)"

text \<open>The \<^verbatim>\<open>cleanup\<close> helper of the handshake: it clears the timer and, when
  \<^verbatim>\<open>this.ws\<close> is set, removes the two listeners from that socket.\<close>

definition auth_cleanup :: "nat \<Rightarrow> world \<Rightarrow> world" where
  "auth_cleanup h w =
     w\<lparr>timers := removeAll (AuthTimer h) (timers w),
       listeners :=
         (case ws (svc w) of
            None \<Rightarrow> listeners w
          | Some k \<Rightarrow> removeAll (k, AuthClose h) (removeAll (k, AuthMessage h) (listeners w)))\<rparr>"

text \<open>
  The start of the handshake, up to the sending of the auth request.  Without a wallet
  client or session key it throws before anything is set up.  With \<^verbatim>\<open>this.ws\<close> unset,
  registering the close listener throws inside the promise's executor: the timer is
  armed, nothing is registered, and the promise stays pending until the timer fires.
\<close>

definition authenticate_begin :: "nat \<Rightarrow> transfer_outcome \<Rightarrow> world \<Rightarrow> world \<times> action list" where
  "authenticate_begin h out w =
     (if \<not> walletClient (svc w) \<or> \<not> sessionKey (svc w) then (settle h (Inl AuthNeedsWallet) w, [])
      else
        (let w1 = w\<lparr>timers := timers w @ [AuthTimer h]\<rparr>;
             t1 = [SetTimeout (AuthTimer h) 30000]
         in case ws (svc w1) of
              None \<Rightarrow> (w1, t1)
            | Some k \<Rightarrow>
               (let w2 = w1\<lparr>listeners := listeners w1 @ [(k, AuthClose h), (k, AuthMessage h)]\<rparr>
                in case out of
                     Sent \<Rightarrow> (w2, t1 @ [WsSend AuthRequestMsg])
                   | BuildThrows r \<Rightarrow>
                       (settle h (Inl (Thrown r)) (auth_cleanup h w2),
                        t1 @ [ClearTimer (AuthTimer h)])
                   | SendThrows r \<Rightarrow>
                       (settle h (Inl (Thrown r)) (auth_cleanup h w2),
                        t1 @ [WsSend AuthRequestMsg, ClearTimer (AuthTimer h)]))))"

text \<open>The timer's callback, the close listener and the message listener.  The second
  argument of the message listener says what signing the challenge and sending the
  verification do.\<close>

definition auth_onTimeout :: "nat \<Rightarrow> world \<Rightarrow> world \<times> action list" where
  "auth_onTimeout h w =
     (settle h (Inl AuthTimedOut) (auth_cleanup h w), [ClearTimer (AuthTimer h)])"

definition auth_onClose :: "nat \<Rightarrow> world \<Rightarrow> world \<times> action list" where
  "auth_onClose h w =
     (settle h (Inl AuthConnectionLost) (auth_cleanup h w), [ClearTimer (AuthTimer h)])"

definition auth_onMessage ::
  "nat \<Rightarrow> inbound \<Rightarrow> transfer_outcome \<Rightarrow> world \<Rightarrow> world \<times> action list" where
  "auth_onMessage h d sign w =
     (case d of
        NonJson \<Rightarrow> (w, [])
      | Unparsable \<Rightarrow> (w, [])
      | Parsed r \<Rightarrow>
          (let (w1, t1) =
                 (if rmethod r = AuthChallenge then
                    (case sign of
                       Sent \<Rightarrow> (w, [WsSend AuthVerifyMsg])
                     | BuildThrows m \<Rightarrow>
                         (settle h (Inl AuthSignFailed) (auth_cleanup h w),
                          [ClearTimer (AuthTimer h)])
                     | SendThrows m \<Rightarrow>
                         (settle h (Inl AuthSignFailed) (auth_cleanup h w),
                          [WsSend AuthVerifyMsg, ClearTimer (AuthTimer h)]))
                  else (w, []));
               (w2, t2) =
                 (if rmethod r = AuthVerify \<and> rsuccess r \<noteq> Some False then
                    (settle h (Inr ())
                       (auth_cleanup h (w1\<lparr>svc := (svc w1)\<lparr>authenticated := True\<rparr>\<rparr>)),
                     [ClearTimer (AuthTimer h)] @
                     (if truthy (rjwtToken r) then [StoreJwt (the (rjwtToken r))] else []))
                  else (w1, []));
               (w3, t3) =
                 (if rmethod r = Error then
                    (settle h (Inl (AuthRejected (reason_or r ''Authentication failed'')))
                       (auth_cleanup h w2),
                     [ClearTimer (AuthTimer h)])
                  else (w2, []))
           in (w3, t1 @ t2 @ t3)))"

text \<open>
  What can happen to a handshake in flight: its timer fires (if still armed), the socket
  \<open>k\<close> closes or delivers a frame, the application calls \<^verbatim>\<open>disconnect\<close>, or
  \<^verbatim>\<open>_connectToClearNode\<close> runs again (a reconnect timer set by an earlier close fires,
  or \<^verbatim>\<open>initialize\<close> is called a second time): it assigns a new socket \<open>k\<close> to
  \<^verbatim>\<open>this.ws\<close> and registers the service's message listener on it, and the old socket
  stays as it is.  On a close the service's \<open>onclose\<close> handler runs first (it is set on
  every socket the service opens), then the handshake's close listener if it is
  registered on \<open>k\<close>; on a frame the service's \<open>handleMessage\<close> runs first if its
  listener is on \<open>k\<close>, then the handshake's message listener if it is registered on
  \<open>k\<close>.
\<close>

datatype auth_event =
    TimerFires
  | SocketCloses socket
  | SocketMessage socket inbound transfer_outcome
  | Disconnects
  | Connects socket

definition service_handle :: "auth_event \<Rightarrow> world \<Rightarrow> world \<times> action list" where
  "service_handle ev w =
     (case ev of
        TimerFires \<Rightarrow> (w, [])
      | SocketCloses k \<Rightarrow> (let (s1, t1) = onclose (svc w) in (w\<lparr>svc := s1\<rparr>, t1))
      | SocketMessage k d sign \<Rightarrow>
          if (k, ServiceMessage) \<in> set (listeners w)
          then (let (s1, t1) = handleMessage d (svc w) in (w\<lparr>svc := s1\<rparr>, t1))
          else (w, [])
      | Disconnects \<Rightarrow> (let (s1, t1) = disconnect (svc w) in (w\<lparr>svc := s1\<rparr>, t1))
      | Connects k \<Rightarrow>
          (w\<lparr>svc := (svc w)\<lparr>ws := Some k\<rparr>, listeners := listeners w @ [(k, ServiceMessage)]\<rparr>,
           []))"

definition listener_handle :: "nat \<Rightarrow> auth_event \<Rightarrow> world \<Rightarrow> world \<times> action list" where
  "listener_handle h ev w =
     (case ev of
        TimerFires \<Rightarrow>
          if AuthTimer h \<in> set (timers w) then auth_onTimeout h w else (w, [])
      | SocketCloses k \<Rightarrow>
          if (k, AuthClose h) \<in> set (listeners w) then auth_onClose h w else (w, [])
      | SocketMessage k d sign \<Rightarrow>
          if (k, AuthMessage h) \<in> set (listeners w) then auth_onMessage h d sign w else (w, [])
      | Disconnects \<Rightarrow> (w, [])
      | Connects k \<Rightarrow> (w, []))"

definition auth_handle :: "nat \<Rightarrow> auth_event \<Rightarrow> world \<Rightarrow> world \<times> action list" where
  "auth_handle h ev w =
     (let (w1, t1) = service_handle ev w;
          (w2, t2) = listener_handle h ev w1
      in (w2, t1 @ t2))"

fun auth_run :: "nat \<Rightarrow> auth_event list \<Rightarrow> world \<Rightarrow> world" where
  "auth_run h [] w = w"
| "auth_run h (ev # evs) w = auth_run h evs (fst (auth_handle h ev w))"

text \<open>Nothing of handshake \<open>h\<close> is left: its timer is not armed and neither of its
  listeners is registered on any socket.  And: every listener of \<open>h\<close> still registered is
  on the socket \<^verbatim>\<open>this.ws\<close> refers to.\<close>

definition handshake_clean :: "nat \<Rightarrow> world \<Rightarrow> bool" where
  "handshake_clean h w =
     (AuthTimer h \<notin> set (timers w) \<and>
      list_all (\<lambda>x. snd x \<noteq> AuthMessage h \<and> snd x \<noteq> AuthClose h) (listeners w))"

definition on_current_socket :: "nat \<Rightarrow> world \<Rightarrow> bool" where
  "on_current_socket h w =
     list_all (\<lambda>x. (snd x \<noteq> AuthMessage h \<and> snd x \<noteq> AuthClose h) \<or> ws (svc w) = Some (fst x))
       (listeners w)"

definition is_settled :: "nat \<Rightarrow> world \<Rightarrow> bool" where
  "is_settled h w = (map_of (settled w) h \<noteq> None)"

text \<open>A world right after the socket 0 opened: the service's message listener is on it.\<close>

definition open_world :: world where
  "open_world = \<lparr>svc = ready_service\<lparr>ws := Some 0, authenticated := False\<rparr>,
     listeners = [(0, ServiceMessage)], timers = [], settled = []\<rparr>"

text \<open>What every step of a handshake keeps true while \<^verbatim>\<open>this.ws\<close> is not assigned
  (\<^verbatim>\<open>disconnect\<close> is not called and no new socket is opened), and the events that
  leave \<^verbatim>\<open>this.ws\<close> alone.\<close>

definition auth_inv :: "nat \<Rightarrow> world \<Rightarrow> bool" where
  "auth_inv h w = (on_current_socket h w \<and> (is_settled h w \<longrightarrow> handshake_clean h w))"

fun keeps_socket :: "auth_event \<Rightarrow> bool" where
  "keeps_socket Disconnects = False"
| "keeps_socket (Connects k) = False"
| "keeps_socket _ = True"

section \<open>Lemmas on reconnection\<close>

lemma delays_append: "delays (a @ b) = delays a @ delays b"
  by (induction a rule: delays.induct) simp_all

lemma terminal_errors_append: "terminal_errors (a @ b) = terminal_errors a + terminal_errors b"
  by (induction a rule: terminal_errors.induct) simp_all

lemma onclose_unfold:
  "onclose s =
     (if reconnectAttempts s < 5
      then (s\<lparr>connected := False, authenticated := False, keepAliveInterval := False,
               reconnectAttempts := Suc (reconnectAttempts s)\<rparr>,
            (if keepAliveInterval s then [ClearTimer KeepAliveTimer] else []) @
            [Event OnDisconnected, SetTimeout ReconnectTimer (backoff (Suc (reconnectAttempts s)))])
      else (s\<lparr>connected := False, authenticated := False, keepAliveInterval := False\<rparr>,
            (if keepAliveInterval s then [ClearTimer KeepAliveTimer] else []) @
            [Event OnDisconnected,
             Event (OnError MaxReconnectAttempts ''Could not reconnect to Yellow Network'')]))"
  by (simp add: onclose_def stopKeepAlive_def attemptReconnect_def maxReconnectAttempts_def
      backoff_def Let_def)

lemma onopen_unfold:
  "onopen s =
     (s\<lparr>connected := True, reconnectAttempts := 0, keepAliveInterval := True\<rparr>,
      (if keepAliveInterval s then [ClearTimer KeepAliveTimer] else []) @
      [SetTimeout KeepAliveTimer 25000, Event OnConnected])"
  by (simp add: onopen_def startKeepAlive_def stopKeepAlive_def Let_def)

lemma run_nonempty: "snd (reconnect_run os n s) \<noteq> []"
proof (cases os)
  case Nil
  then show ?thesis by (simp add: onclose_unfold)
next
  case (Cons o1 os')
  then show ?thesis
    by (cases o1) (simp_all add: onclose_unfold onopen_unfold onerror_def split: prod.splits)
qed

lemma run_delays:
  "\<exists>m. m \<le> 5 - reconnectAttempts s \<and>
       delays (snd (reconnect_run os n s)) =
         map backoff [Suc (reconnectAttempts s) ..< Suc (reconnectAttempts s) + m]"
proof (induction os arbitrary: n s)
  case Nil
  show ?case
  proof (cases "reconnectAttempts s < 5")
    case True
    then have "delays (snd (reconnect_run [] n s)) = map backoff [Suc (reconnectAttempts s) ..< Suc (reconnectAttempts s) + 1]"
      by (simp add: onclose_unfold delays_append)
    with True show ?thesis by (intro exI[of _ 1]) simp
  next
    case False
    then show ?thesis by (intro exI[of _ 0]) (simp add: onclose_unfold delays_append)
  qed
next
  case (Cons o1 os)
  show ?case
  proof (cases "reconnectAttempts s < 5")
    case False
    then show ?thesis
      by (intro exI[of _ 0]) (cases o1; simp add: onclose_unfold delays_append)
  next
    case True
    show ?thesis
    proof (cases o1)
      case Opened
      with True have "delays (snd (reconnect_run (o1 # os) n s)) = map backoff [Suc (reconnectAttempts s) ..< Suc (reconnectAttempts s) + 1]"
        by (simp add: onclose_unfold onopen_unfold delays_append)
      with True show ?thesis by (intro exI[of _ 1]) simp
    next
      case Failed
      define s2 where "s2 = (s\<lparr>connected := False, authenticated := False, keepAliveInterval := False,
               reconnectAttempts := Suc (reconnectAttempts s), ws := Some n\<rparr>)"
      from Cons.IH[where n = "Suc n" and s = s2] obtain m where
        m: "m \<le> 5 - reconnectAttempts s2"
           "delays (snd (reconnect_run os (Suc n) s2)) = map backoff [Suc (reconnectAttempts s2) ..< Suc (reconnectAttempts s2) + m]"
        by blast
      have k2: "reconnectAttempts s2 = Suc (reconnectAttempts s)" by (simp add: s2_def)
      have "delays (snd (reconnect_run (o1 # os) n s)) =
              backoff (Suc (reconnectAttempts s)) # delays (snd (reconnect_run os (Suc n) s2))"
        using True Failed
        by (simp add: onclose_unfold delays_append onerror_def s2_def split_def Let_def)
      also have "\<dots> = map backoff [Suc (reconnectAttempts s) ..< Suc (reconnectAttempts s) + Suc m]"
      proof -
        have "[Suc (reconnectAttempts s) ..< Suc (reconnectAttempts s) + Suc m] =
              Suc (reconnectAttempts s) # [Suc (Suc (reconnectAttempts s)) ..< Suc (Suc (reconnectAttempts s)) + m]"
          by (subst upt_rec) simp
        then show ?thesis using m(2) k2 by simp
      qed
      finally have "delays (snd (reconnect_run (o1 # os) n s)) = map backoff [Suc (reconnectAttempts s) ..< Suc (reconnectAttempts s) + Suc m]" .
      moreover have "Suc m \<le> 5 - reconnectAttempts s" using m(1) k2 True by simp
      ultimately show ?thesis by blast
    qed
  qed
qed

lemma run_terminal:
  "terminal_errors (snd (reconnect_run os n s)) =
     (if take (5 - reconnectAttempts s) os = replicate (5 - reconnectAttempts s) Failed then 1 else 0)
   \<and> (if take (5 - reconnectAttempts s) os = replicate (5 - reconnectAttempts s) Failed
      then last (snd (reconnect_run os n s)) =
             Event (OnError MaxReconnectAttempts ''Could not reconnect to Yellow Network'')
      else True)"
proof (induction os arbitrary: n s)
  case Nil
  show ?case by (simp add: onclose_unfold terminal_errors_append)
next
  case (Cons o1 os)
  show ?case
  proof (cases "reconnectAttempts s < 5")
    case False
    then show ?thesis by (cases o1; simp add: onclose_unfold terminal_errors_append)
  next
    case True
    then obtain j where j: "5 - reconnectAttempts s = Suc j" by (cases "5 - reconnectAttempts s") auto
    show ?thesis
    proof (cases o1)
      case Opened
      with True j show ?thesis
        by (simp add: onclose_unfold onopen_unfold terminal_errors_append delays_append)
    next
      case Failed
      define s2 where "s2 = (s\<lparr>connected := False, authenticated := False, keepAliveInterval := False,
               reconnectAttempts := Suc (reconnectAttempts s), ws := Some n\<rparr>)"
      have k2: "5 - reconnectAttempts s2 = j" using j by (simp add: s2_def)
      have ne: "snd (reconnect_run os (Suc n) s2) \<noteq> []"
        by (rule run_nonempty)
      define pre where "pre = (if keepAliveInterval s then [ClearTimer KeepAliveTimer] else []) @
            [Event OnDisconnected, SetTimeout ReconnectTimer (backoff (Suc (reconnectAttempts s))),
             Event (OnError ConnectionError ''Failed to connect to Yellow Network'')]"
      have eq: "snd (reconnect_run (o1 # os) n s) = pre @ snd (reconnect_run os (Suc n) s2)"
        using True Failed
        by (simp add: onclose_unfold onerror_def s2_def pre_def split_def Let_def)
      have pre0: "terminal_errors pre = 0" by (simp add: pre_def)
      have tk: "take (5 - reconnectAttempts s) (o1 # os) = replicate (5 - reconnectAttempts s) Failed
                \<longleftrightarrow> take j os = replicate j Failed"
        using j Failed by simp
      from Cons.IH[where n = "Suc n" and s = s2] ne show ?thesis
        unfolding eq tk k2 by (simp add: terminal_errors_append pre0)
    qed
  qed
qed


lemma run_all_failed_length:
  "take (5 - reconnectAttempts s) os = replicate (5 - reconnectAttempts s) Failed
   \<Longrightarrow> length (delays (snd (reconnect_run os n s))) = 5 - reconnectAttempts s"
proof (induction os arbitrary: n s)
  case Nil
  then show ?case by (simp add: onclose_unfold delays_append)
next
  case (Cons o1 os)
  show ?case
  proof (cases "reconnectAttempts s < 5")
    case False
    then show ?thesis by (cases o1; simp add: onclose_unfold delays_append)
  next
    case True
    then obtain j where j: "5 - reconnectAttempts s = Suc j"
      by (cases "5 - reconnectAttempts s") auto
    with Cons.prems have o1: "o1 = Failed" and tk: "take j os = replicate j Failed"
      by simp_all
    define s2 where "s2 = (s\<lparr>connected := False, authenticated := False,
        keepAliveInterval := False, reconnectAttempts := Suc (reconnectAttempts s),
        ws := Some n\<rparr>)"
    have k2: "5 - reconnectAttempts s2 = j" using j by (simp add: s2_def)
    have "delays (snd (reconnect_run (o1 # os) n s)) =
            backoff (Suc (reconnectAttempts s)) # delays (snd (reconnect_run os (Suc n) s2))"
      using True o1
      by (simp add: onclose_unfold delays_append onerror_def s2_def split_def Let_def)
    moreover have "length (delays (snd (reconnect_run os (Suc n) s2))) = j"
      using Cons.IH[where n = "Suc n" and s = s2] tk k2 by simp
    ultimately show ?thesis using j by simp
  qed
qed

lemma backoff_sorted: "sorted (map backoff [a..<b])"
proof -
  have "backoff i \<le> backoff j" if "i \<le> j" for i j
  proof -
    have "(2::nat) ^ i \<le> 2 ^ j" using that by (simp add: power_increasing)
    then show ?thesis by (simp add: backoff_def min_le_iff_disj)
  qed
  then show ?thesis
    by (simp add: sorted_map sorted_wrt_iff_nth_less)
qed

lemma backoff_capped: "list_all (\<lambda>d. d \<le> 30000) (map backoff xs)"
  by (simp add: list_all_iff backoff_def)

section \<open>Lemmas on the rounding of numbers\<close>

text \<open>The exponent brackets the number; the rounding lands on the grid and no value of the
  grid is nearer; hence it is monotone and leaves the values of the grid alone.  The last
  lemmas evaluate it on literals.\<close>

lemma bitlen_pos: "0 < n \<Longrightarrow> 1 \<le> bitlen n"
  using bitlen_eq_zero_iff[of n] bitlen_nonneg[of n] by linarith

lemma exponent_lower:
  assumes "x \<noteq> 0"
  shows "2 powi exponent x \<le> \<bar>x\<bar>"
proof (cases "1 \<le> \<bar>x\<bar>")
  case True
  define n where "n = \<lfloor>\<bar>x\<bar>\<rfloor>"
  have n: "1 \<le> n" using True by (simp add: n_def le_floor_iff)
  then have k: "1 \<le> bitlen n" by (simp add: bitlen_pos)
  have "(2::int) ^ nat (bitlen n - 1) \<le> n" using bitlen_bounds[of n] n by simp
  then have "rat_of_int (2 ^ nat (bitlen n - 1)) \<le> rat_of_int n" by (simp only: of_int_le_iff)
  also have "\<dots> \<le> \<bar>x\<bar>" by (simp add: n_def)
  finally have "(2::rat) ^ nat (bitlen n - 1) \<le> \<bar>x\<bar>" by simp
  moreover have "exponent x = bitlen n - 1" using True by (simp add: exponent_def n_def)
  ultimately show ?thesis using k by (simp add: power_int_def)
next
  case False
  define y where "y = 1 / \<bar>x\<bar>"
  define m where "m = \<lceil>y\<rceil> - 1"
  have xp: "0 < \<bar>x\<bar>" using assms by simp
  have y1: "1 < y" using False xp by (simp add: y_def)
  then have m: "1 \<le> m" by (simp add: m_def less_ceiling_iff)
  then have k: "1 \<le> bitlen m" by (simp add: bitlen_pos)
  have "m < 2 ^ nat (bitlen m)" using bitlen_bounds[of m] m by simp
  then have "m + 1 \<le> 2 ^ nat (bitlen m)" by simp
  then have "rat_of_int (m + 1) \<le> rat_of_int (2 ^ nat (bitlen m))" by (simp only: of_int_le_iff)
  moreover have "y \<le> rat_of_int (m + 1)" by (simp add: m_def)
  ultimately have "y \<le> 2 ^ nat (bitlen m)" by simp
  then have "1 / 2 ^ nat (bitlen m) \<le> \<bar>x\<bar>"
    using xp by (simp add: y_def field_simps)
  moreover have "exponent x = - bitlen m" using False by (simp add: exponent_def m_def y_def)
  ultimately show ?thesis using k by (simp add: power_int_def field_simps)
qed

lemma exponent_upper:
  assumes "x \<noteq> 0"
  shows "\<bar>x\<bar> < 2 powi (exponent x + 1)"
proof (cases "1 \<le> \<bar>x\<bar>")
  case True
  define n where "n = \<lfloor>\<bar>x\<bar>\<rfloor>"
  have n: "1 \<le> n" using True by (simp add: n_def le_floor_iff)
  then have k: "1 \<le> bitlen n" by (simp add: bitlen_pos)
  have "n < 2 ^ nat (bitlen n)" using bitlen_bounds[of n] n by simp
  then have "n + 1 \<le> 2 ^ nat (bitlen n)" by simp
  then have "rat_of_int (n + 1) \<le> rat_of_int (2 ^ nat (bitlen n))" by (simp only: of_int_le_iff)
  moreover have "\<bar>x\<bar> < rat_of_int (n + 1)" unfolding n_def by linarith
  ultimately have "\<bar>x\<bar> < 2 ^ nat (bitlen n)" by simp
  moreover have "exponent x = bitlen n - 1" using True by (simp add: exponent_def n_def)
  ultimately show ?thesis using k by (simp add: power_int_def)
next
  case False
  define y where "y = 1 / \<bar>x\<bar>"
  define m where "m = \<lceil>y\<rceil> - 1"
  have xp: "0 < \<bar>x\<bar>" using assms by simp
  have y1: "1 < y" using False xp by (simp add: y_def)
  then have m: "1 \<le> m" by (simp add: m_def less_ceiling_iff)
  then have k: "1 \<le> bitlen m" by (simp add: bitlen_pos)
  have "2 ^ nat (bitlen m - 1) \<le> m" using bitlen_bounds[of m] m by simp
  then have "rat_of_int (2 ^ nat (bitlen m - 1)) \<le> rat_of_int m" by (simp only: of_int_le_iff)
  also have "rat_of_int m < y" unfolding m_def by linarith
  finally have "2 ^ nat (bitlen m - 1) < y" by simp
  then have "\<bar>x\<bar> < 1 / 2 ^ nat (bitlen m - 1)"
    using xp by (simp add: y_def field_simps)
  moreover have "exponent x = - bitlen m" using False by (simp add: exponent_def m_def y_def)
  moreover have "nat (bitlen m - 1) = nat (bitlen m) - 1" using k by simp
  ultimately show ?thesis using k
    by (cases "bitlen m = 1") (simp_all add: power_int_def field_simps)
qed


lemma nearest_even_cases:
  "nearest_even x = \<lfloor>x\<rfloor> \<and> x - of_int \<lfloor>x\<rfloor> \<le> 1 / 2
   \<or> nearest_even x = \<lfloor>x\<rfloor> + 1 \<and> 1 / 2 \<le> x - of_int \<lfloor>x\<rfloor>"
  by (simp add: nearest_even_def Let_def)

lemma nearest_even_nearest: "\<bar>x - of_int (nearest_even x)\<bar> \<le> \<bar>x - of_int m\<bar>"
proof -
  define a where "a = rat_of_int \<lfloor>x\<rfloor>"
  define b where "b = rat_of_int m"
  define c where "c = rat_of_int (nearest_even x)"
  have f: "a \<le> x" "x < a + 1" unfolding a_def by linarith+
  have c: "c = a \<and> x - a \<le> 1 / 2 \<or> c = a + 1 \<and> 1 / 2 \<le> x - a"
    using nearest_even_cases[of x] unfolding a_def c_def by auto
  have "m \<le> \<lfloor>x\<rfloor> \<or> \<lfloor>x\<rfloor> + 1 \<le> m" by linarith
  then have "rat_of_int m \<le> of_int \<lfloor>x\<rfloor> \<or> rat_of_int (\<lfloor>x\<rfloor> + 1) \<le> of_int m"
    by (simp only: of_int_le_iff)
  then have b: "b \<le> a \<or> a + 1 \<le> b" unfolding a_def b_def by simp
  from f c b have "\<bar>x - c\<bar> \<le> \<bar>x - b\<bar>" by linarith
  then show ?thesis unfolding b_def c_def .
qed

lemma nearest_even_of_int [simp]: "nearest_even (of_int n) = n"
  using nearest_even_nearest[of "of_int n" n] by simp

lemma nearest_even_le: "x \<le> of_int m \<Longrightarrow> nearest_even x \<le> m"
proof (rule ccontr)
  define b where "b = rat_of_int m"
  define c where "c = rat_of_int (nearest_even x)"
  assume x: "x \<le> of_int m" and "\<not> nearest_even x \<le> m"
  then have "m + 1 \<le> nearest_even x" by simp
  then have "rat_of_int (m + 1) \<le> of_int (nearest_even x)" by (simp only: of_int_le_iff)
  then have "b + 1 \<le> c" unfolding b_def c_def by simp
  moreover have "x \<le> b" using x unfolding b_def .
  moreover have "\<bar>x - c\<bar> \<le> \<bar>x - b\<bar>" unfolding b_def c_def by (rule nearest_even_nearest)
  ultimately show False by linarith
qed

lemma nearest_even_ge: "of_int m \<le> x \<Longrightarrow> m \<le> nearest_even x"
proof (rule ccontr)
  define b where "b = rat_of_int m"
  define c where "c = rat_of_int (nearest_even x)"
  assume x: "of_int m \<le> x" and "\<not> m \<le> nearest_even x"
  then have "nearest_even x + 1 \<le> m" by simp
  then have "rat_of_int (nearest_even x + 1) \<le> of_int m" by (simp only: of_int_le_iff)
  then have "c + 1 \<le> b" unfolding b_def c_def by simp
  moreover have "b \<le> x" using x unfolding b_def .
  moreover have "\<bar>x - c\<bar> \<le> \<bar>x - b\<bar>" unfolding b_def c_def by (rule nearest_even_nearest)
  ultimately show False by linarith
qed

lemma scaled_nearest:
  assumes "0 < q"
  shows "\<bar>x - of_int (nearest_even (x / q)) * q\<bar> \<le> \<bar>x - of_int m * q\<bar>"
proof -
  have "\<bar>x - of_int k * q\<bar> = q * \<bar>x / q - of_int k\<bar>" for k :: int
  proof -
    have "x - of_int k * q = q * (x / q - of_int k)" using assms by (simp add: field_simps)
    then show ?thesis using assms by (simp add: abs_mult)
  qed
  then show ?thesis using assms nearest_even_nearest[of "x / q" m] by simp
qed


lemma ulp_pos: "0 < ulp x"
  by (simp add: ulp_def)

lemma ulp_bound:
  assumes "x \<noteq> 0"
  shows "\<bar>x\<bar> < 2 ^ 53 * ulp x"
proof -
  define E where "E = max (exponent x) (- 1022)"
  have "\<bar>x\<bar> < 2 powi (exponent x + 1)" by (rule exponent_upper[OF assms])
  also have "\<dots> \<le> 2 powi (E + 1)" by (rule power_int_increasing) (simp_all add: E_def)
  also have "E + 1 = 53 + (E - 52)" by simp
  also have "(2::rat) powi (53 + (E - 52)) = 2 powi 53 * 2 powi (E - 52)"
    by (rule power_int_add) simp
  finally show ?thesis by (simp add: ulp_def E_def)
qed

lemma round64_zero [simp]: "round64 0 = 0"
  using nearest_even_of_int[of 0] by (simp add: round64_def)

lemma round64_grid: "round64 x \<in> grid"
proof (cases "x = 0")
  case True
  have "(0::rat) = of_int 0 * 2 powi 0" by simp
  moreover have "\<bar>0::int\<bar> \<le> 2 ^ 53 \<and> - 1074 \<le> (0::int)" by simp
  ultimately have "(0::rat) \<in> grid" unfolding grid_def by blast
  with True show ?thesis by simp
next
  case False
  define n where "n = nearest_even (x / ulp x)"
  define E where "E = max (exponent x) (- 1022)"
  have q: "0 < ulp x" by (rule ulp_pos)
  have b: "\<bar>x\<bar> < 2 ^ 53 * ulp x" by (rule ulp_bound[OF False])
  then have "x < 2 ^ 53 * ulp x" "- (2 ^ 53 * ulp x) < x" by linarith+
  then have "x / ulp x \<le> rat_of_int (2 ^ 53)" "rat_of_int (- (2 ^ 53)) \<le> x / ulp x"
    using q by (simp_all add: field_simps)
  then have "n \<le> 2 ^ 53" "- (2 ^ 53) \<le> n"
    unfolding n_def by (simp_all only: nearest_even_le nearest_even_ge)
  then have "\<bar>n\<bar> \<le> 2 ^ 53" by linarith
  moreover have "- 1074 \<le> E - 52" by (simp add: E_def)
  moreover have "round64 x = of_int n * 2 powi (E - 52)"
    by (simp add: round64_def n_def ulp_def E_def)
  ultimately show ?thesis unfolding grid_def by blast
qed


lemma round64_nearest:
  assumes "d \<in> grid"
  shows "\<bar>x - round64 x\<bar> \<le> \<bar>x - d\<bar>"
proof (cases "x = 0")
  case True
  then show ?thesis by simp
next
  case nz: False
  from assms obtain m k where d: "d = of_int m * 2 powi k" and m: "\<bar>m\<bar> \<le> 2 ^ 53"
    and k: "- 1074 \<le> k" unfolding grid_def by blast
  define E where "E = max (exponent x) (- 1022)"
  define q where "q = (2::rat) powi (E - 52)"
  have q: "0 < q" by (simp add: q_def)
  have bx: "round64 x = of_int (nearest_even (x / q)) * q"
    by (simp add: round64_def ulp_def E_def q_def)
  show ?thesis
  proof (cases "E - 52 \<le> k")
    case True
    define M where "M = m * 2 ^ nat (k - (E - 52))"
    have "(2::rat) powi k = 2 powi ((k - (E - 52)) + (E - 52))" by simp
    also have "\<dots> = 2 powi (k - (E - 52)) * q" unfolding q_def by (rule power_int_add) simp
    also have "(2::rat) powi (k - (E - 52)) = 2 ^ nat (k - (E - 52))"
      using True by (simp add: power_int_def)
    finally have "d = of_int M * q" by (simp add: d M_def)
    then show ?thesis unfolding bx using scaled_nearest[OF q, of x M] by simp
  next
    case False
    then have kE: "k \<le> E - 53" by simp
    with k have "- 1022 < E" by simp
    then have E: "E = exponent x" by (simp add: E_def max_def split: if_splits)
    have low: "2 powi E \<le> \<bar>x\<bar>" unfolding E by (rule exponent_lower[OF nz])
    have "rat_of_int \<bar>m\<bar> \<le> rat_of_int (2 ^ 53)" using m by (simp only: of_int_le_iff)
    then have m': "rat_of_int \<bar>m\<bar> \<le> 2 powi 53" by simp
    have "\<bar>d\<bar> = rat_of_int \<bar>m\<bar> * 2 powi k" by (simp add: d abs_mult)
    also have "\<dots> \<le> 2 powi 53 * 2 powi k" using m' by (rule mult_right_mono) simp
    also have "\<dots> \<le> 2 powi 53 * 2 powi (E - 53)"
      using kE by (intro mult_left_mono power_int_increasing) simp_all
    also have "\<dots> = 2 powi (53 + (E - 53))" by (rule power_int_add[symmetric]) simp
    finally have dE: "\<bar>d\<bar> \<le> 2 powi E" by simp
    define b where "b = (if 0 \<le> x then (2::rat) powi E else - (2 powi E))"
    have "(2::rat) powi E = 2 powi (52 + (E - 52))" by simp
    also have "\<dots> = 2 powi 52 * q" unfolding q_def by (rule power_int_add) simp
    finally have "b = rat_of_int (if 0 \<le> x then 2 ^ 52 else - (2 ^ 52)) * q"
      by (simp add: b_def)
    then have "\<bar>x - round64 x\<bar> \<le> \<bar>x - b\<bar>"
      unfolding bx using scaled_nearest[OF q, of x "if 0 \<le> x then 2 ^ 52 else - (2 ^ 52)"]
      by simp
    moreover have "\<bar>x - b\<bar> \<le> \<bar>x - d\<bar>"
    proof (cases "0 \<le> x")
      case True
      then have "b = 2 powi E" by (simp add: b_def)
      with True low dE show ?thesis by linarith
    next
      case False
      then have "b = - (2 powi E)" by (simp add: b_def)
      with False low dE show ?thesis by linarith
    qed
    ultimately show ?thesis by linarith
  qed
qed


lemma round64_mono:
  assumes "x \<le> y"
  shows "round64 x \<le> round64 y"
proof (rule ccontr)
  assume "\<not> round64 x \<le> round64 y"
  then have lt: "round64 y < round64 x" by simp
  have "\<bar>x - round64 x\<bar> \<le> \<bar>x - round64 y\<bar>"
    by (rule round64_nearest[OF round64_grid])
  moreover have "\<bar>y - round64 y\<bar> \<le> \<bar>y - round64 x\<bar>"
    by (rule round64_nearest[OF round64_grid])
  ultimately have "x = y" using assms lt by linarith
  with lt show False by simp
qed

lemma round64_nonneg: "0 \<le> x \<Longrightarrow> 0 \<le> round64 x"
  using round64_mono[of 0 x] by simp


lemma bitlen_one [simp]: "bitlen 1 = 1"
  by (subst compute_bitlen) simp

lemma bitlen_Bit0 [simp]: "bitlen (numeral (Num.Bit0 n)) = bitlen (numeral n) + 1"
  by (subst compute_bitlen) simp

lemma bitlen_Bit1 [simp]: "bitlen (numeral (Num.Bit1 n)) = bitlen (numeral n) + 1"
  by (subst compute_bitlen) simp

lemma floor_rat_numeral [simp]:
  "\<lfloor>numeral a / numeral b :: rat\<rfloor> = numeral a div numeral b"
  "\<lfloor>- (numeral a / numeral b) :: rat\<rfloor> = - numeral a div numeral b"
  "\<lfloor>1 / numeral b :: rat\<rfloor> = 1 div numeral b"
  "\<lfloor>- (1 / numeral b) :: rat\<rfloor> = - 1 div numeral b"
  using floor_divide_of_int_eq[of "numeral a" "numeral b", where ?'a = rat]
    floor_divide_of_int_eq[of "- numeral a" "numeral b", where ?'a = rat]
    floor_divide_of_int_eq[of 1 "numeral b", where ?'a = rat]
    floor_divide_of_int_eq[of "- 1" "numeral b", where ?'a = rat]
  by simp_all

lemma ceiling_rat_numeral [simp]:
  "\<lceil>numeral a / numeral b :: rat\<rceil> = - (- numeral a div numeral b)"
  "\<lceil>1 / numeral b :: rat\<rceil> = - (- 1 div numeral b)"
  unfolding ceiling_def by simp_all

lemmas binary64_eval = binary64_def round64_def ulp_def exponent_def nearest_even_def Let_def

text \<open>The order of numbers, and sums that grow.\<close>

lemma zero_num [simp]: "(0::number) = Num 0"
  by (simp add: zero_number_def)




lemma number_not_le: "0 < t \<Longrightarrow> \<not> t \<le> (0::number)"
  by (cases t) simp_all

lemma number_not_gt: "t \<le> b \<Longrightarrow> \<not> b < (t::number)"
  by (cases t; cases b) simp_all




text \<open>Two roundings the code shows: \<^verbatim>\<open>0.1 + 0.2\<close> is \<^verbatim>\<open>0.30000000000000004\<close>, and
  \<^verbatim>\<open>2.01\<close> dollars are 2009999 units of an asset with six decimals.\<close>

lemma add64_tenths:
  "add64 (binary64 (1/10)) (binary64 (2/10)) = Num (5404319552844596 / 2 ^ 54)"
  "binary64 (3/10) = Num (5404319552844595 / 2 ^ 54)"
  by (simp_all add: binary64_eval)

lemma toAssetUnits_rounds: "toAssetUnits new_service (binary64 (201/100)) = Num 2009999"
  by (simp add: toAssetUnits_def new_service_def default_config_def binary64_eval)

section \<open>Lemmas on the session ledger\<close>



section \<open>Lemmas on the orchestrator\<close>

lemma txs_append: "txs (a @ b) = txs a @ txs b"
  by (induction a rule: txs.induct) simp_all
lemma sent_append: "sent (a @ b) = sent a @ sent b"
  by (induction a rule: sent.induct) simp_all
lemma reads_append: "reads (a @ b) = reads a @ reads b"
  by (induction a rule: reads.induct) simp_all
lemma receipts_append: "receipts (a @ b) = receipts a @ receipts b"
  by (induction a rule: receipts.induct) simp_all
lemma events_append: "events (a @ b) = events a @ events b"
  by (induction a rule: events.induct) simp_all

lemmas step_defs = seq_def try_catch_def ret_def throw_def act_def assign_def call_def
  compute_def
  call0_def build_def

lemma withdraw_remaining_effects:
  "\<exists>h t. withdraw_remaining e s = (Inr h, s, t)
     \<and> sent t = []
     \<and> reads t = [AccountBalanceRead (tokenAddress s)]
     \<and> txs t = (case account_balance e WithdrawStage of
                  Inl _ \<Rightarrow> []
                | Inr b \<Rightarrow> if b \<noteq> 0 then [WithdrawalTx (tokenAddress s) b] else [])
     \<and> events t = []"
  by (auto simp: withdraw_remaining_def step_defs split: sum.splits option.splits)

lemma close_stage_skipped:
  "\<not> truthy (channelId s) \<Longrightarrow> close_stage e n s = (Inr None, s, [])"
  by (simp add: close_stage_def ret_def)

lemma close_stage_done:
  assumes "truthy (channelId s)" "build_message e CloseStage = None"
    "rpc_reply e CloseStage = RpcOk" "submit e CloseStage = Inr h"
  shows "close_stage e n s =
     (Inr (Some h), s, [Event (OnWithdrawProgress 1 n False),
        WsSend (CloseChannelMsg (the (channelId s))), Submit CloseChannelTx])"
  using assms by (simp add: close_stage_def step_defs sendRPC_def onchain_def)

lemma closeChannelAndWithdraw_no_client:
  "nitroliteClient s = None \<Longrightarrow> closeChannelAndWithdraw e s = (Inr None, s, [])"
  by (simp add: closeChannelAndWithdraw_def ret_def)

lemma channels_to_close_none:
  "\<not> truthy (channelId s) \<Longrightarrow> \<not> truthy (existingChannelId s) \<Longrightarrow> channels_to_close s = []"
  by (simp add: channels_to_close_def)

section \<open>Lemmas on the correlator and the handshake\<close>

lemma delete_last_distinct:
  "ps \<noteq> [] \<Longrightarrow> distinct (map fst ps) \<Longrightarrow> AList.delete (fst (last ps)) ps = butlast ps"
proof (induction ps)
  case Nil
  then show ?case by simp
next
  case (Cons p ps)
  show ?case
  proof (cases "ps = []")
    case True
    then show ?thesis by (simp add: AList.delete_eq split_def)
  next
    case False
    with Cons.prems have "fst (last ps) \<noteq> fst p"
      by (metis distinct.simps(2) image_eqI last_in_set list.simps(9) set_map)
    with False Cons show ?thesis by (simp add: AList.delete_eq split_def)
  qed
qed

lemma settle_fields [simp]:
  "listeners (settle h r w) = listeners w" "timers (settle h r w) = timers w"
  "svc (settle h r w) = svc w" "is_settled h (settle h r w)"
  by (simp_all add: settle_def is_settled_def map_of_eq_None_iff image_Un)

lemma settle_keeps: "is_settled h' w \<Longrightarrow> is_settled h' (settle h r w)"
  by (auto simp: settle_def is_settled_def)

lemma cleanup_fields [simp]:
  "svc (auth_cleanup h w) = svc w" "settled (auth_cleanup h w) = settled w"
  "AuthTimer h \<notin> set (timers (auth_cleanup h w))"
  by (simp_all add: auth_cleanup_def)

lemma cleanup_clean:
  "on_current_socket h w \<Longrightarrow> handshake_clean h (auth_cleanup h w)"
  by (cases "ws (svc w)")
    (auto simp: on_current_socket_def handshake_clean_def auth_cleanup_def list_all_iff)

lemma cleanup_clean_svc:
  "on_current_socket h w \<Longrightarrow> ws s' = ws (svc w) \<Longrightarrow>
     handshake_clean h (auth_cleanup h (w\<lparr>svc := s'\<rparr>))"
  by (cases "ws (svc w)")
    (auto simp: on_current_socket_def handshake_clean_def auth_cleanup_def list_all_iff)

lemma clean_settle [simp]: "handshake_clean h (settle h' r w) = handshake_clean h w"
  by (simp add: handshake_clean_def)

lemma current_settle [simp]: "on_current_socket h (settle h' r w) = on_current_socket h w"
  by (simp add: on_current_socket_def)

lemma clean_current: "handshake_clean h w \<Longrightarrow> on_current_socket h w"
  by (auto simp: handshake_clean_def on_current_socket_def list_all_iff)

lemma begin_inv:
  assumes "handshake_clean h w" "\<not> is_settled h w"
  shows "auth_inv h (fst (authenticate_begin h out w))"
proof (cases "\<not> walletClient (svc w) \<or> \<not> sessionKey (svc w)")
  case True
  with assms show ?thesis
    by (simp add: authenticate_begin_def auth_inv_def clean_current)
next
  case False
  show ?thesis
  proof (cases "ws (svc w)")
    case None
    with False assms show ?thesis
      by (auto simp: authenticate_begin_def auth_inv_def Let_def is_settled_def
          on_current_socket_def handshake_clean_def list_all_iff)
  next
    case (Some k)
    define w2 where "w2 = w\<lparr>timers := timers w @ [AuthTimer h],
        listeners := listeners w @ [(k, AuthClose h), (k, AuthMessage h)]\<rparr>"
    have cur: "on_current_socket h w2"
      using assms(1) Some
      by (auto simp: w2_def on_current_socket_def handshake_clean_def list_all_iff)
    have ns: "\<not> is_settled h w2" using assms(2) by (simp add: w2_def is_settled_def)
    have cl: "handshake_clean h (auth_cleanup h w2)" by (rule cleanup_clean[OF cur])
    have cc: "on_current_socket h (auth_cleanup h w2)" by (rule clean_current[OF cl])
    show ?thesis
      using False Some cur ns cl cc
      by (cases out) (simp_all add: authenticate_begin_def auth_inv_def Let_def w2_def)
  qed
qed

lemma ws_onclose: "ws (fst (onclose s)) = ws s"
  by (simp add: onclose_def stopKeepAlive_def attemptReconnect_def Let_def)

lemma ws_resolve_channel_ready: "ws (fst (resolve_channel_ready c s)) = ws s"
  by (simp add: resolve_channel_ready_def)

lemma ws_resolve_resize: "ws (fst (resolve_resize c s)) = ws s"
  by (simp add: resolve_resize_def)

lemma ws_balance_push: "ws (fst (balance_push b s)) = ws s"
  by (simp add: balance_push_def Let_def split: option.splits)

lemma ws_channels_push: "ws (fst (channels_push chs s)) = ws s"
  by (simp add: channels_push_def Let_def ws_resolve_channel_ready split: option.splits)

lemma ws_other_push: "ws (fst (other_push r s)) = ws s"
  by (simp add: other_push_def Let_def split_def ws_resolve_channel_ready ws_resolve_resize)

lemma ws_standing_handler: "ws (fst (standing_handler r s)) = ws s"
  by (cases "rmethod r")
    (simp_all add: standing_handler_def split_def Let_def ws_balance_push ws_channels_push
      ws_other_push)

lemma ws_handleMessage: "ws (fst (handleMessage d s)) = ws s"
  by (cases d)
    (simp_all add: handleMessage_def split_def Let_def ws_standing_handler
      split: option.splits)

lemma svc_update_preds [simp]:
  "handshake_clean h (w\<lparr>svc := s'\<rparr>) = handshake_clean h w"
  "is_settled h (w\<lparr>svc := s'\<rparr>) = is_settled h w"
  by (simp_all add: handshake_clean_def is_settled_def)

lemma svc_update_current:
  "ws s' = ws (svc w) \<Longrightarrow> on_current_socket h (w\<lparr>svc := s'\<rparr>) = on_current_socket h w"
  by (simp add: on_current_socket_def)

lemma service_handle_keeps:
  "handshake_clean h (fst (service_handle ev w)) = handshake_clean h w"
  "is_settled h (fst (service_handle ev w)) = is_settled h w"
  "timers (fst (service_handle ev w)) = timers w"
  by (cases ev; simp add: service_handle_def split_def Let_def handshake_clean_def
      is_settled_def)+

lemma service_handle_current:
  "keeps_socket ev \<Longrightarrow>
     on_current_socket h (fst (service_handle ev w)) = on_current_socket h w"
  by (cases ev)
    (simp_all add: service_handle_def split_def Let_def svc_update_current ws_onclose
      ws_handleMessage)

lemma listener_noop_after_clean:
  assumes "handshake_clean h w"
  shows "fst (listener_handle h ev w) = w"
  using assms
  by (cases ev) (auto simp: listener_handle_def handshake_clean_def list_all_iff)

lemma listener_inv:
  assumes "auth_inv h w"
  shows "auth_inv h (fst (listener_handle h ev w))"
proof (cases "is_settled h w")
  case True
  with assms have "handshake_clean h w" by (simp add: auth_inv_def)
  from listener_noop_after_clean[OF this] assms show ?thesis by simp
next
  case ns: False
  from assms have cur: "on_current_socket h w" by (simp add: auth_inv_def)
  have cl: "handshake_clean h (auth_cleanup h w)" by (rule cleanup_clean[OF cur])
  have cc: "on_current_socket h (auth_cleanup h w)" by (rule clean_current[OF cl])
  have cl': "handshake_clean h (auth_cleanup h (w\<lparr>svc := (svc w)\<lparr>authenticated := True\<rparr>\<rparr>))"
    by (rule cleanup_clean_svc[OF cur]) simp
  have cc': "on_current_socket h (auth_cleanup h (w\<lparr>svc := (svc w)\<lparr>authenticated := True\<rparr>\<rparr>))"
    by (rule clean_current[OF cl'])
  show ?thesis
  proof (cases ev)
    case TimerFires
    with ns cur cl cc show ?thesis
      by (simp add: listener_handle_def auth_onTimeout_def auth_inv_def)
  next
    case (SocketCloses k)
    with ns cur cl cc show ?thesis
      by (simp add: listener_handle_def auth_onClose_def auth_inv_def)
  next
    case (SocketMessage k d sign)
    show ?thesis
    proof (cases d)
      case (Parsed r)
      with SocketMessage ns cur cl cc cl' cc' show ?thesis
        by (cases sign; cases "rmethod r = AuthChallenge"; cases "rmethod r = AuthVerify";
            cases "rmethod r = Error")
          (simp_all add: listener_handle_def auth_onMessage_def auth_inv_def Let_def)
    qed (use SocketMessage ns cur in
          \<open>simp_all add: listener_handle_def auth_onMessage_def auth_inv_def\<close>)
  next
    case Disconnects
    with assms show ?thesis by (simp add: listener_handle_def)
  next
    case (Connects k)
    with assms show ?thesis by (simp add: listener_handle_def)
  qed
qed

lemma handle_inv:
  assumes "auth_inv h w" "keeps_socket ev"
  shows "auth_inv h (fst (auth_handle h ev w))"
proof -
  have "auth_inv h (fst (service_handle ev w))"
    using assms by (simp add: auth_inv_def service_handle_keeps service_handle_current)
  from listener_inv[OF this, of ev] show ?thesis
    by (simp add: auth_handle_def split_def Let_def)
qed

lemma run_inv:
  "auth_inv h w \<Longrightarrow> list_all keeps_socket evs \<Longrightarrow> auth_inv h (auth_run h evs w)"
proof (induction evs arbitrary: w)
  case Nil
  then show ?case by simp
next
  case (Cons ev evs)
  then have "auth_inv h (fst (auth_handle h ev w))" by (auto intro: handle_inv)
  with Cons show ?case by simp
qed

lemma listener_timer:
  assumes "is_settled h w \<longrightarrow> AuthTimer h \<notin> set (timers w)"
  shows "is_settled h (fst (listener_handle h ev w))
         \<longrightarrow> AuthTimer h \<notin> set (timers (fst (listener_handle h ev w)))"
proof (cases ev)
  case TimerFires
  with assms show ?thesis by (simp add: listener_handle_def auth_onTimeout_def)
next
  case (SocketCloses k)
  with assms show ?thesis by (simp add: listener_handle_def auth_onClose_def)
next
  case (SocketMessage k d sign)
  show ?thesis
  proof (cases d)
    case (Parsed r)
    with SocketMessage assms show ?thesis
      by (cases sign; cases "rmethod r = AuthChallenge"; cases "rmethod r = AuthVerify";
          cases "rmethod r = Error")
        (simp_all add: listener_handle_def auth_onMessage_def Let_def)
  qed (use SocketMessage assms in \<open>simp_all add: listener_handle_def auth_onMessage_def\<close>)
next
  case Disconnects
  with assms show ?thesis by (simp add: listener_handle_def)
next
  case (Connects k)
  with assms show ?thesis by (simp add: listener_handle_def)
qed

lemma handle_timer:
  assumes "is_settled h w \<longrightarrow> AuthTimer h \<notin> set (timers w)"
  shows "is_settled h (fst (auth_handle h ev w))
         \<longrightarrow> AuthTimer h \<notin> set (timers (fst (auth_handle h ev w)))"
proof -
  have "is_settled h (fst (service_handle ev w))
        \<longrightarrow> AuthTimer h \<notin> set (timers (fst (service_handle ev w)))"
    using assms by (simp add: service_handle_keeps)
  from listener_timer[OF this, of ev] show ?thesis
    by (simp add: auth_handle_def split_def Let_def)
qed

lemma run_timer:
  "is_settled h w \<longrightarrow> AuthTimer h \<notin> set (timers w) \<Longrightarrow>
   is_settled h (auth_run h evs w) \<longrightarrow> AuthTimer h \<notin> set (timers (auth_run h evs w))"
proof (induction evs arbitrary: w)
  case Nil
  then show ?case by simp
next
  case (Cons ev evs)
  from Cons.IH[OF handle_timer[OF Cons.prems]] show ?case by simp
qed

text \<open>Whenever the promise of a handshake is settled, its timer is no longer armed; and
  when \<^verbatim>\<open>this.ws\<close> was not assigned meanwhile, neither of its listeners is registered on
  any socket any more.\<close>

lemma exit_cleanup_on_same_socket:
  assumes "handshake_clean h w0" and "\<not> is_settled h w0"
    and "is_settled h (auth_run h evs (fst (authenticate_begin h out w0)))"
  shows "AuthTimer h \<notin> set (timers (auth_run h evs (fst (authenticate_begin h out w0))))"
    and "list_all keeps_socket evs \<Longrightarrow>
            handshake_clean h (auth_run h evs (fst (authenticate_begin h out w0)))"
proof -
  have inv: "auth_inv h (fst (authenticate_begin h out w0))"
    by (rule begin_inv[OF assms(1,2)])
  then have "is_settled h (fst (authenticate_begin h out w0))
      \<longrightarrow> AuthTimer h \<notin> set (timers (fst (authenticate_begin h out w0)))"
    by (simp add: auth_inv_def handshake_clean_def)
  from run_timer[OF this] assms(3)
  show "AuthTimer h \<notin> set (timers (auth_run h evs (fst (authenticate_begin h out w0))))"
    by simp
  show "handshake_clean h (auth_run h evs (fst (authenticate_begin h out w0)))"
    if "list_all keeps_socket evs"
    using run_inv[OF inv that] assms(3) by (simp add: auth_inv_def)
qed

text \<open>The six exit paths of a handshake on socket 0, with \<^verbatim>\<open>this.ws\<close> left alone:
  the successful handshake (challenge signed, verification accepted), an error response,
  a refused signature, the timeout, the loss of the connection, and a first request that
  cannot be sent.  Each leaves only the service's own listener.\<close>

lemma exits_clean_on_same_socket:
  "handshake_clean 1 (auth_run 1
       [SocketMessage 0 (Parsed (bare_response AuthChallenge None)) Sent,
        SocketMessage 0 (Parsed (bare_response AuthVerify None)) Sent]
       (fst (authenticate_begin 1 Sent open_world)))"
  "handshake_clean 1 (auth_run 1
       [SocketMessage 0 (Parsed (bare_response Error (Some ''denied''))) Sent]
       (fst (authenticate_begin 1 Sent open_world)))"
  "handshake_clean 1 (auth_run 1
       [SocketMessage 0 (Parsed (bare_response AuthChallenge None)) (BuildThrows ''refused'')]
       (fst (authenticate_begin 1 Sent open_world)))"
  "handshake_clean 1 (auth_run 1 [TimerFires]
       (fst (authenticate_begin 1 Sent open_world)))"
  "handshake_clean 1 (auth_run 1 [SocketCloses 0]
       (fst (authenticate_begin 1 Sent open_world)))"
  "handshake_clean 1 (auth_run 1 []
       (fst (authenticate_begin 1 (SendThrows ''not open'') open_world)))"
  by (simp_all add: authenticate_begin_def auth_handle_def service_handle_def
        listener_handle_def auth_onMessage_def auth_onTimeout_def auth_onClose_def
        auth_cleanup_def settle_def handshake_clean_def
        handleMessage_def standing_handler_def reason_or_def
        onclose_def attemptReconnect_def maxReconnectAttempts_def stopKeepAlive_def
        open_world_def ready_service_def new_service_def bare_response_def Let_def)

section \<open>Lemmas on the ledger between calls and frames\<close>




















section \<open>Claims\<close>

text \<open>
  C5.  After the connection closes, with \<open>k\<close> reconnect attempts already counted since a
  socket last opened (\<open>k = 0\<close> when the connection that closed had opened, since the open
  handler resets the counter), and whatever the outcome of each later attempt: the attempt
  numbered \<open>i\<close> (the counter's value when the timer is set, \<open>k + 1\<close>, \<open>k + 2\<close>, ...) is
  scheduled with delay \<open>min (1000 * 2 ^ i) 30000\<close> ms; the delays are non-decreasing and
  at most 30000; at most \<open>5 - k\<close>, hence at most 5, attempts are scheduled; the terminal
  error event \<open>max_reconnect_attempts\<close> is triggered exactly when the attempts up to the
  fifth all fail, it is then the last effect of the run, and no timer is set after it.
\<close>

theorem reconnect_backoff_bounded:
  "(let k = reconnectAttempts s;
        t = snd (reconnect_run os n s);
        ds = delays t;
        all_failed = (take (5 - k) os = replicate (5 - k) Failed)
    in ds = map (\<lambda>i. min (1000 * 2 ^ i) 30000) [Suc k ..< Suc k + length ds]
     \<and> sorted ds
     \<and> list_all (\<lambda>d. d \<le> 30000) ds
     \<and> length ds \<le> 5 - k
     \<and> length ds \<le> 5
     \<and> terminal_errors t = (if all_failed then 1 else 0)
     \<and> (if all_failed
        then last t = Event (OnError MaxReconnectAttempts ''Could not reconnect to Yellow Network'')
           \<and> length ds = 5 - k
        else True))"
proof -
  obtain m where m: "m \<le> 5 - reconnectAttempts s"
    "delays (snd (reconnect_run os n s)) =
       map backoff [Suc (reconnectAttempts s) ..< Suc (reconnectAttempts s) + m]"
    using run_delays by blast
  have len: "length (delays (snd (reconnect_run os n s))) = m"
    using m(2) by simp
  have fm: "backoff = (\<lambda>i. min (1000 * 2 ^ i) 30000)"
    by (rule ext) (simp add: backoff_def)
  have a: "delays (snd (reconnect_run os n s)) =
       map (\<lambda>i. min (1000 * 2 ^ i) 30000)
         [Suc (reconnectAttempts s) ..<
          Suc (reconnectAttempts s) + length (delays (snd (reconnect_run os n s)))]"
    using m(2) unfolding len fm .
  have b: "sorted (delays (snd (reconnect_run os n s)))"
    unfolding m(2) by (rule backoff_sorted)
  have c: "list_all (\<lambda>d. d \<le> 30000) (delays (snd (reconnect_run os n s)))"
    unfolding m(2) by (rule backoff_capped)
  have d: "length (delays (snd (reconnect_run os n s))) \<le> 5 - reconnectAttempts s"
    using m(1) len by simp
  have e: "take (5 - reconnectAttempts s) os = replicate (5 - reconnectAttempts s) Failed
           \<Longrightarrow> length (delays (snd (reconnect_run os n s))) = 5 - reconnectAttempts s"
    by (rule run_all_failed_length)
  have d5: "length (delays (snd (reconnect_run os n s))) \<le> 5"
    using d by arith
  have f: "terminal_errors (snd (reconnect_run os n s)) =
      (if take (5 - reconnectAttempts s) os = replicate (5 - reconnectAttempts s) Failed
       then 1 else 0)"
    using run_terminal[of os n s] by blast
  have g: "(if take (5 - reconnectAttempts s) os = replicate (5 - reconnectAttempts s) Failed
       then last (snd (reconnect_run os n s)) =
              Event (OnError MaxReconnectAttempts ''Could not reconnect to Yellow Network'')
          \<and> length (delays (snd (reconnect_run os n s))) = 5 - reconnectAttempts s
       else True)"
    using run_terminal[of os n s] e by (simp split: if_splits)
  show ?thesis
    unfolding Let_def using a b c d d5 f g by (intro conjI)
qed

text \<open>Seven failures in a row after a connection that had opened: five attempts, at 2, 4,
  8, 16 and 30 seconds, then the terminal error.\<close>

theorem reconnect_backoff_bounded_witness:
  "delays (snd (reconnect_run (replicate 7 Failed) 1
      (new_service\<lparr>connected := True, authenticated := True, ws := Some 0,
         keepAliveInterval := True\<rparr>))) = [2000, 4000, 8000, 16000, 30000]
   \<and> terminal_errors (snd (reconnect_run (replicate 7 Failed) 1
      (new_service\<lparr>connected := True, authenticated := True, ws := Some 0,
         keepAliveInterval := True\<rparr>))) = 1"
proof -
  define s where "s = new_service\<lparr>connected := True, authenticated := True, ws := Some 0,
         keepAliveInterval := True\<rparr>"
  define ds where "ds = delays (snd (reconnect_run (replicate 7 Failed) 1 s))"
  have k: "reconnectAttempts s = 0" by (simp add: s_def new_service_def)
  have f: "take 5 (replicate 7 Failed) = replicate 5 Failed" by simp
  note th = reconnect_backoff_bounded [of s "replicate 7 Failed" 1, unfolded Let_def k]
  from th have a: "ds = map (\<lambda>i. min (1000 * 2 ^ i) 30000) [Suc 0 ..< Suc 0 + length ds]"
    unfolding ds_def by (rule conjunct1)
  from th f have l: "length ds = 5"
    and t: "terminal_errors (snd (reconnect_run (replicate 7 Failed) 1 s)) = 1"
    unfolding ds_def by simp_all
  have "[Suc 0 ..< Suc 0 + 5] = [1, 2, 3, 4, 5]" by (simp add: upt_rec)
  with a l have "ds = [2000, 4000, 8000, 16000, 30000]" by (simp del: upt_Suc)
  with t show ?thesis unfolding ds_def s_def by simp
qed




text \<open>
  C9.  When the checks of \<^verbatim>\<open>sendTip\<close> pass (an active session with this streamer,
  \<open>0 < tip \<le> remaining\<close>) and building the transfer message or sending it throws, the
  call returns its success value all the same: \<open>spent\<close> has grown by the tip and the
  remaining balance has shrunk by it (the sum and the difference as numbers), in the
  state and in the value returned; no error event is triggered, and the last effect is
  the \<^verbatim>\<open>onTipSent\<close> event.
\<close>

theorem sendTip_swallows_transfer_failure:
  assumes "activeStreamSession s = Some ss" and "streamerAddress ss = streamer"
    and "0 < tip" and "tip \<le> currentBalance ss"
    and "out = BuildThrows r \<or> out = SendThrows r"
  shows "\<exists>info t.
      sendTip out tip streamer msg s =
        (Inr info,
         s\<lparr>activeStreamSession :=
             Some (ss\<lparr>spent := add64 (spent ss) tip,
                      currentBalance := sub64 (currentBalance ss) tip\<rparr>)\<rparr>,
         t)
      \<and> totalSpent info = add64 (spent ss) tip
      \<and> remainingBalance info = sub64 (currentBalance ss) tip
      \<and> error_events t = []
      \<and> last t = Event (OnTipSent info streamer msg)"
proof -
  from assms(3,4) have "\<not> tip \<le> 0" "\<not> currentBalance ss < tip"
    by (simp_all add: number_not_le number_not_gt del: zero_num)
  with assms(1,2,5) show ?thesis by (auto simp: sendTip_def Let_def simp del: zero_num)
qed

theorem sendTip_swallows_transfer_failure_witness:
  "\<exists>info t.
      sendTip (SendThrows ''socket closed'') (Num 2) ''bob'' ''hi''
        (new_service\<lparr>connected := True, authenticated := True, sessionSigner := True,
           activeStreamSession := Some \<lparr>sessionId = 1, streamerAddress = ''bob'',
             viewerAddress = None, initialDeposit = Num 5, currentBalance = Num 5,
             spent = Num 0, commissionRate = Num 10, isPartner = False, createdAt = 1,
             sessionStatus = Active\<rparr>\<rparr>) =
        (Inr info,
         new_service\<lparr>connected := True, authenticated := True, sessionSigner := True,
           activeStreamSession := Some \<lparr>sessionId = 1, streamerAddress = ''bob'',
             viewerAddress = None, initialDeposit = Num 5, currentBalance = Num 3,
             spent = Num 2, commissionRate = Num 10, isPartner = False, createdAt = 1,
             sessionStatus = Active\<rparr>\<rparr>, t)
      \<and> totalSpent info = Num 2 \<and> remainingBalance info = Num 3 \<and> error_events t = []"
proof -
  define ss where "ss = \<lparr>sessionId = 1, streamerAddress = ''bob'',
             viewerAddress = None, initialDeposit = Num 5, currentBalance = Num 5,
             spent = Num 0, commissionRate = Num 10, isPartner = False, createdAt = 1,
             sessionStatus = Active\<rparr>"
  define s where "s = new_service\<lparr>connected := True, authenticated := True,
           sessionSigner := True, activeStreamSession := Some ss\<rparr>"
  have h1: "activeStreamSession s = Some ss" by (simp add: s_def)
  have h2: "streamerAddress ss = ''bob''" by (simp add: ss_def)
  have h3: "0 < Num 2" by simp
  have h4: "Num 2 \<le> currentBalance ss" by (simp add: ss_def)
  have h5: "SendThrows ''socket closed'' = BuildThrows ''socket closed''
          \<or> SendThrows ''socket closed'' = SendThrows ''socket closed''" by simp
  from sendTip_swallows_transfer_failure [OF h1 h2 h3 h4 h5, of "''hi''"]
  obtain info t where r:
    "sendTip (SendThrows ''socket closed'') (Num 2) ''bob'' ''hi'' s =
       (Inr info, s\<lparr>activeStreamSession :=
          Some (ss\<lparr>spent := add64 (spent ss) (Num 2),
                   currentBalance := sub64 (currentBalance ss) (Num 2)\<rparr>)\<rparr>, t)"
    "totalSpent info = add64 (spent ss) (Num 2)"
    "remainingBalance info = sub64 (currentBalance ss) (Num 2)"
    "error_events t = []"
    by blast
  have e: "add64 (Num 0) (Num 2) = Num 2" "sub64 (Num 5) (Num 2) = Num 3"
    by (simp_all add: sub64_def binary64_eval)
  from r show ?thesis
    unfolding s_def ss_def e
    by (intro exI[of _ info] exI[of _ t]) (simp del: add64.simps add: e)
qed

text \<open>
  C3, as amended.  For every chain id absent from the network configuration,
  \<^verbatim>\<open>depositAndOpenChannel\<close> throws before any stage runs: it has no effect at all (no
  on-chain transaction, no message, no event) and leaves the service, so the channel and
  deposit state, as it was.  The error is the chain-unsupported one when the service is
  connected and authenticated and has a public client; the two checks that come first
  answer with their own errors otherwise.
\<close>

theorem deposit_unsupported_chain:
  assumes "chain \<notin> set (getSupportedChainIds s)"
  shows "depositAndOpenChannel e amt chain tok s =
     (Inl (if \<not> connected s \<or> \<not> authenticated s then NotConnected
           else if \<not> publicClient s then NoPublicClient
           else ChainUnsupported chain (getSupportedChainIds s)), s, [])"
proof -
  from assms have "findNetworkForChain s chain = None"
    by (auto simp: findNetworkForChain_def getSupportedChainIds_def find_None_iff
        split: option.splits)
  then show ?thesis
    by (simp add: depositAndOpenChannel_def throw_def)
qed

theorem deposit_unsupported_chain_witness:
  "depositAndOpenChannel (calm_env 0 0) (Num 5) 1 ''0xtoken'' ready_service =
     (Inl (ChainUnsupported 1 [8453]), ready_service, [])"
proof -
  have h: "1 \<notin> set (getSupportedChainIds ready_service)"
    by (simp add: getSupportedChainIds_def ready_service_def new_service_def)
  have g: "getSupportedChainIds ready_service = [8453]"
    by (simp add: getSupportedChainIds_def ready_service_def new_service_def)
  from deposit_unsupported_chain [OF h, of "calm_env 0 0" "Num 5" "''0xtoken''"] g
  show ?thesis by (simp add: ready_service_def new_service_def)
qed

text \<open>C3 as stated fails on a service initialised without a public client: the chain is
  absent from the configuration, and the error is not the chain-unsupported one.\<close>

theorem deposit_unsupported_chain_counterexample:
  "1 \<notin> set (getSupportedChainIds (ready_service\<lparr>publicClient := False\<rparr>))
   \<and> fst (depositAndOpenChannel (calm_env 0 0) (Num 5) 1 ''0xtoken''
            (ready_service\<lparr>publicClient := False\<rparr>)) = Inl NoPublicClient
   \<and> NoPublicClient \<noteq> ChainUnsupported 1 [8453]"
  by (simp add: depositAndOpenChannel_def throw_def getSupportedChainIds_def
      ready_service_def new_service_def)

text \<open>
  C4, as amended.  On a service that is connected and authenticated, has a public client
  and knows the chain, and whose on-chain client exists or can be constructed:
  \<^verbatim>\<open>deepCleanup\<close> with no channel id tracked (neither the current one nor one seen in
  a push) and a custody balance of zero returns no closed channel, \<open>custodyDrained\<close> with
  amount \<^verbatim>\<open>'0'\<close> (and no transaction hash) and no error, and submits no on-chain
  transaction.
\<close>

theorem deepCleanup_nothing_to_do:
  assumes "connected s" and "authenticated s" and "publicClient s"
    and "chain \<in> set (getSupportedChainIds s)"
    and "nitroliteClient s \<noteq> None \<or> construct_client e = None"
    and "\<not> truthy (channelId s)" and "\<not> truthy (existingChannelId s)"
    and "account_balance e CleanupDrain = Inr 0"
  shows "\<exists>s' t. deepCleanup e chain tok s =
      (Inr \<lparr>channelsClosed = [], custodyDrained = Some (''0'', None), ledgerBalance = None,
            errors = []\<rparr>, s', t)
    \<and> txs t = []"
proof -
  from assms(4) obtain n where n: "findNetworkForChain s chain = Some n"
    by (cases "findNetworkForChain s chain")
      (auto simp: findNetworkForChain_def getSupportedChainIds_def find_None_iff
        split: option.splits)
  have ch: "channels_to_close (s\<lparr>tokenAddress := Some tok\<rparr>) = []"
       "\<And>c. channels_to_close (s\<lparr>tokenAddress := Some tok, nitroliteClient := Some c\<rparr>) = []"
    using assms(6,7) by (simp_all add: channels_to_close_def)
  show ?thesis
    using assms(1,2,3,5,8) n ch
    by (cases "nitroliteClient s"; cases "build_message e CleanupLedger";
        cases "socket_send e CleanupLedger")
      (simp_all add: deepCleanup_def ensure_client_def step_defs txs_append)
qed

theorem deepCleanup_nothing_to_do_witness:
  "\<exists>s' t. deepCleanup (calm_env 0 0) 8453 ''0xtoken'' ready_service =
      (Inr \<lparr>channelsClosed = [], custodyDrained = Some (''0'', None), ledgerBalance = None,
            errors = []\<rparr>, s', t)
    \<and> txs t = []"
proof -
  have h: "connected ready_service" "authenticated ready_service" "publicClient ready_service"
    "8453 \<in> set (getSupportedChainIds ready_service)"
    "nitroliteClient ready_service \<noteq> None \<or> construct_client (calm_env 0 0) = None"
    "\<not> truthy (channelId ready_service)" "\<not> truthy (existingChannelId ready_service)"
    "account_balance (calm_env 0 0) CleanupDrain = Inr 0"
    by (simp_all add: ready_service_def new_service_def calm_env_def getSupportedChainIds_def)
  show ?thesis
    by (rule deepCleanup_nothing_to_do [OF h])
qed

text \<open>C4 as stated fails where a guard of \<^verbatim>\<open>deepCleanup\<close> throws.  After an
  initialisation whose configuration fetch failed (\<^verbatim>\<open>_getConfig\<close> swallows the failure)
  the service is connected and authenticated with no network known: no channel is
  tracked, the custody balance is zero, and the call throws instead of returning the
  summary.\<close>

theorem deepCleanup_nothing_to_do_counterexample:
  "\<not> truthy (channelId (ready_service\<lparr>networkConfig := None\<rparr>))
   \<and> \<not> truthy (existingChannelId (ready_service\<lparr>networkConfig := None\<rparr>))
   \<and> account_balance (calm_env 0 0) CleanupDrain = Inr 0
   \<and> fst (deepCleanup (calm_env 0 0) 8453 ''0xtoken'' (ready_service\<lparr>networkConfig := None\<rparr>))
       = Inl (ChainUnsupported 8453 [])"
  by (simp add: deepCleanup_def throw_def findNetworkForChain_def getSupportedChainIds_def
      ready_service_def new_service_def calm_env_def)

text \<open>
  C6, as amended.  On a service that holds an on-chain client, with \<open>t\<close> the effects of
  \<^verbatim>\<open>closeChannelAndWithdraw\<close>: when no channel id is recorded, no message goes to the
  node and no close is submitted; the only chain read is that of the custody balance of
  the token and the only transaction a withdrawal of that balance, submitted exactly when
  the balance read is nonzero.  When a channel id is recorded and the close goes through
  (the message is built, the node answers, the on-chain close returns) and the custody
  balance read is \<open>b\<close>: the close request is the only message, and the transactions are
  the close followed by the withdrawal of \<open>b\<close> when \<open>b\<close> is nonzero, the close alone
  when it is zero.
\<close>

theorem close_skips_or_precedes_withdrawal:
  assumes "nitroliteClient s \<noteq> None"
  shows "(let t = snd (snd (closeChannelAndWithdraw e s)) in
     (\<not> truthy (channelId s) \<longrightarrow>
        sent t = []
      \<and> reads t = [AccountBalanceRead (tokenAddress s)]
      \<and> txs t = (case account_balance e WithdrawStage of
                   Inl _ \<Rightarrow> []
                 | Inr b \<Rightarrow> if b \<noteq> 0 then [WithdrawalTx (tokenAddress s) b] else []))
   \<and> (truthy (channelId s)
        \<and> build_message e CloseStage = None \<and> rpc_reply e CloseStage = RpcOk
        \<and> submit e CloseStage = Inr h \<and> account_balance e WithdrawStage = Inr b \<longrightarrow>
        sent t = [CloseChannelMsg (the (channelId s))]
      \<and> txs t = CloseChannelTx #
                  (if b \<noteq> 0 then [WithdrawalTx (tokenAddress s) b] else [])))"
proof -
  obtain wh wt where w: "withdraw_remaining e s = (Inr wh, s, wt)" "sent wt = []"
      "reads wt = [AccountBalanceRead (tokenAddress s)]"
      "txs wt = (case account_balance e WithdrawStage of
                  Inl _ \<Rightarrow> []
                | Inr b \<Rightarrow> if b \<noteq> 0 then [WithdrawalTx (tokenAddress s) b] else [])"
    using withdraw_remaining_effects[of e s] by blast
  show ?thesis
  proof (cases "truthy (channelId s)")
    case no: False
    with assms w show ?thesis
      by (simp add: closeChannelAndWithdraw_def close_stage_skipped step_defs
          sent_append reads_append txs_append split: sum.splits)
  next
    case yes: True
    show ?thesis
    proof (cases "build_message e CloseStage = None \<and> rpc_reply e CloseStage = RpcOk
        \<and> submit e CloseStage = Inr h \<and> account_balance e WithdrawStage = Inr b")
      case c: True
      with assms yes w close_stage_done[of s e h 2] show ?thesis
        by (simp add: closeChannelAndWithdraw_def step_defs
          sent_append reads_append txs_append)
    next
      case False
      with yes show ?thesis by (auto simp: Let_def)
    qed
  qed
qed

text \<open>Scenario B of the specification: a known channel id and a custody balance of 3 give
  the close, then the withdrawal of 3.  And with no channel id recorded: the balance is
  read and the 3 are withdrawn, nothing else.\<close>

theorem close_skips_or_precedes_withdrawal_witness:
  "txs (snd (snd (closeChannelAndWithdraw (calm_env 3 0)
      (ready_service\<lparr>nitroliteClient := Some base_client, channelId := Some ''0xchannel'',
         tokenAddress := Some ''0xtoken''\<rparr>))))
     = [CloseChannelTx, WithdrawalTx (Some ''0xtoken'') 3]
   \<and> sent (snd (snd (closeChannelAndWithdraw (calm_env 3 0)
      (ready_service\<lparr>nitroliteClient := Some base_client, tokenAddress := Some ''0xtoken''\<rparr>))))
     = []
   \<and> reads (snd (snd (closeChannelAndWithdraw (calm_env 3 0)
      (ready_service\<lparr>nitroliteClient := Some base_client, tokenAddress := Some ''0xtoken''\<rparr>))))
     = [AccountBalanceRead (Some ''0xtoken'')]
   \<and> txs (snd (snd (closeChannelAndWithdraw (calm_env 3 0)
      (ready_service\<lparr>nitroliteClient := Some base_client, tokenAddress := Some ''0xtoken''\<rparr>))))
     = [WithdrawalTx (Some ''0xtoken'') 3]"
proof -
  define s where "s = ready_service\<lparr>nitroliteClient := Some base_client,
      channelId := Some ''0xchannel'', tokenAddress := Some ''0xtoken''\<rparr>"
  define s' where "s' = ready_service\<lparr>nitroliteClient := Some base_client,
      tokenAddress := Some ''0xtoken''\<rparr>"
  have c: "nitroliteClient s \<noteq> None" "nitroliteClient s' \<noteq> None"
    by (simp_all add: s_def s'_def)
  have h: "truthy (channelId s)
        \<and> build_message (calm_env 3 0) CloseStage = None
        \<and> rpc_reply (calm_env 3 0) CloseStage = RpcOk
        \<and> submit (calm_env 3 0) CloseStage = Inr ''0xhash''
        \<and> account_balance (calm_env 3 0) WithdrawStage = Inr 3"
    by (simp add: s_def ready_service_def new_service_def calm_env_def)
  have h': "\<not> truthy (channelId s')" "account_balance (calm_env 3 0) WithdrawStage = Inr 3"
    by (simp_all add: s'_def ready_service_def new_service_def calm_env_def)
  have tok: "tokenAddress s = Some ''0xtoken''" "tokenAddress s' = Some ''0xtoken''"
    by (simp_all add: s_def s'_def)
  from close_skips_or_precedes_withdrawal [OF c(1), of "calm_env 3 0" "''0xhash''" 3] h
  have a: "txs (snd (snd (closeChannelAndWithdraw (calm_env 3 0) s)))
          = CloseChannelTx # (if (3::nat) \<noteq> 0 then [WithdrawalTx (tokenAddress s) 3] else [])"
    unfolding Let_def by blast
  from close_skips_or_precedes_withdrawal [OF c(2), of "calm_env 3 0" "''0xhash''" 3] h'
  have b: "sent (snd (snd (closeChannelAndWithdraw (calm_env 3 0) s'))) = []
      \<and> reads (snd (snd (closeChannelAndWithdraw (calm_env 3 0) s')))
          = [AccountBalanceRead (tokenAddress s')]
      \<and> txs (snd (snd (closeChannelAndWithdraw (calm_env 3 0) s')))
          = [WithdrawalTx (tokenAddress s') 3]"
    unfolding Let_def by simp
  from a b show ?thesis unfolding tok unfolding s_def s'_def by simp
qed

text \<open>C6 as stated fails on a service without an on-chain client (a new service, or one
  after \<^verbatim>\<open>disconnect\<close>): no channel id is recorded and the custody balance is 3, yet the
  withdrawal check does not run: the balance is not read and nothing is withdrawn.\<close>

theorem close_without_client_counterexample:
  "nitroliteClient ready_service = None
   \<and> \<not> truthy (channelId ready_service)
   \<and> account_balance (calm_env 3 0) WithdrawStage = Inr 3
   \<and> reads (snd (snd (closeChannelAndWithdraw (calm_env 3 0) ready_service))) = []
   \<and> txs (snd (snd (closeChannelAndWithdraw (calm_env 3 0) ready_service))) = []"
  by (simp add: closeChannelAndWithdraw_def ret_def ready_service_def new_service_def
      calm_env_def)

text \<open>
  C7.  The approve stage of the deposit flow changes nothing in the service; after its
  progress event its first effect is the read of the token allowance of the user to the
  custody address, the only chain read of the stage; it submits one transaction, the
  approve of the deposit amount, exactly when the allowance read is below the amount,
  and none when the allowance is at least the amount; and it waits for the receipt of the
  approve transaction when that was submitted.
\<close>

theorem approve_only_below_amount:
  "(let t = snd (snd (deposit_approve e tok custody amountUnits s)) in
      fst (snd (deposit_approve e tok custody amountUnits s)) = s
    \<and> take 2 t = [Event (OnDepositProgress 2 7 False),
                  Read (AllowanceRead tok (userAddress s) custody)]
    \<and> reads t = [AllowanceRead tok (userAddress s) custody]
    \<and> txs t = (case allowance e of
                 Inl _ \<Rightarrow> []
               | Inr a \<Rightarrow> if int a < amountUnits then [ApproveTx tok custody amountUnits]
                         else [])
    \<and> receipts t = (case allowance e of
                 Inl _ \<Rightarrow> []
               | Inr a \<Rightarrow> if int a < amountUnits
                         then (case submit e ApproveStage of Inl _ \<Rightarrow> [] | Inr h \<Rightarrow> [h])
                         else []))"
  by (simp add: deposit_approve_def step_defs split: sum.splits option.splits)

theorem approve_only_below_amount_witness:
  "txs (snd (snd (deposit_approve (calm_env 0 4999999) ''0xtoken'' ''0xcustody'' 5000000
      ready_service))) = [ApproveTx ''0xtoken'' ''0xcustody'' 5000000]
   \<and> txs (snd (snd (deposit_approve (calm_env 0 5000000) ''0xtoken'' ''0xcustody'' 5000000
      ready_service))) = []"
  using approve_only_below_amount [of "calm_env 0 4999999" "''0xtoken''" "''0xcustody''"
      5000000 ready_service]
    approve_only_below_amount [of "calm_env 0 5000000" "''0xtoken''" "''0xcustody''"
      5000000 ready_service]
  by (simp add: Let_def calm_env_def)

text \<open>
  C10.  Without an on-chain client \<^verbatim>\<open>closeChannelAndWithdraw\<close> returns \<^verbatim>\<open>null\<close> and
  does nothing else, whether a channel id is recorded or not: it throws nothing, has no
  effect (no progress or error event, no message, no transaction) and leaves the service
  unchanged.
\<close>

theorem close_without_client_is_noop:
  assumes "nitroliteClient s = None"
  shows "closeChannelAndWithdraw e s = (Inr None, s, [])"
  using assms by (simp add: closeChannelAndWithdraw_def ret_def)

theorem close_without_client_is_noop_witness:
  "truthy (channelId (ready_service\<lparr>channelId := Some ''0xchannel''\<rparr>))
   \<and> closeChannelAndWithdraw (calm_env 3 0) (ready_service\<lparr>channelId := Some ''0xchannel''\<rparr>)
       = (Inr None, ready_service\<lparr>channelId := Some ''0xchannel''\<rparr>, [])"
proof -
  have h: "nitroliteClient (ready_service\<lparr>channelId := Some ''0xchannel''\<rparr>) = None"
    by (simp add: ready_service_def new_service_def)
  from close_without_client_is_noop [OF h, of "calm_env 3 0"] show ?thesis by simp
qed

text \<open>
  C1, as amended.  When the pending-request map holds at least one entry and an
  \<^verbatim>\<open>Error\<close> response arrives that matches no pending kind, the error goes to the last
  entry of the map in insertion order (the kind added most recently): that entry's
  timeout is cleared, its promise is rejected with the reported reason (\<^verbatim>\<open>'RPC error'\<close>
  when none is reported), and the entry is removed from the map; nothing else happens.
  With the keys distinct, as in a map, what remains is the map without its last entry.
\<close>

theorem error_goes_to_last_pending:
  assumes "pendingRequests s \<noteq> []"
    and "Error \<notin> fst ` set (pendingRequests s)"
    and "rmethod r = Error"
  shows "handleMessage (Parsed r) s =
      (s\<lparr>pendingRequests :=
           AList.delete (fst (last (pendingRequests s))) (pendingRequests s)\<rparr>,
       [ClearTimer (RpcTimer (timeoutId (snd (last (pendingRequests s))))),
        Rejected (promise (snd (last (pendingRequests s)))) (reason_or r ''RPC error'')])
    \<and> (distinct (map fst (pendingRequests s)) \<longrightarrow>
        AList.delete (fst (last (pendingRequests s))) (pendingRequests s)
          = butlast (pendingRequests s))"
proof -
  from assms(2) have "map_of (pendingRequests s) Error = None"
    by (simp add: map_of_eq_None_iff)
  with assms(1,3) show ?thesis
    by (simp add: handleMessage_def split_def Let_def delete_last_distinct)
qed

text \<open>Two requests are pending, \<^verbatim>\<open>create_channel\<close> registered before
  \<^verbatim>\<open>get_config\<close> (a reconnect fetches the configuration while the deposit flow waits);
  the error rejects the second.\<close>

theorem error_goes_to_last_pending_witness:
  "handleMessage (Parsed (bare_response Error (Some ''boom'')))
     (ready_service\<lparr>pendingRequests :=
        [(CreateChannel, \<lparr>promise = 1, timeoutId = 11\<rparr>),
         (GetConfig, \<lparr>promise = 2, timeoutId = 12\<rparr>)]\<rparr>)
   = (ready_service\<lparr>pendingRequests := [(CreateChannel, \<lparr>promise = 1, timeoutId = 11\<rparr>)]\<rparr>,
      [ClearTimer (RpcTimer 12), Rejected 2 ''boom''])"
proof -
  define s where "s = ready_service\<lparr>pendingRequests :=
        [(CreateChannel, \<lparr>promise = 1, timeoutId = 11\<rparr>),
         (GetConfig, \<lparr>promise = 2, timeoutId = 12\<rparr>)]\<rparr>"
  have h: "pendingRequests s \<noteq> []" "Error \<notin> fst ` set (pendingRequests s)"
    "rmethod (bare_response Error (Some ''boom'')) = Error"
    by (simp_all add: s_def bare_response_def)
  from error_goes_to_last_pending [OF h]
  show ?thesis
    unfolding s_def by (simp add: reason_or_def bare_response_def AList.delete_eq)
qed

text \<open>C1 as stated fails on the same input: the oldest entry (promise 1, timer 11) is still
  in the map afterwards, its promise is not rejected and its timer is not cleared.\<close>

theorem error_goes_to_oldest_counterexample:
  "hd (pendingRequests (ready_service\<lparr>pendingRequests :=
        [(CreateChannel, \<lparr>promise = 1, timeoutId = 11\<rparr>),
         (GetConfig, \<lparr>promise = 2, timeoutId = 12\<rparr>)]\<rparr>))
     = (CreateChannel, \<lparr>promise = 1, timeoutId = 11\<rparr>)
   \<and> Error \<notin> fst ` set (pendingRequests (ready_service\<lparr>pendingRequests :=
        [(CreateChannel, \<lparr>promise = 1, timeoutId = 11\<rparr>),
         (GetConfig, \<lparr>promise = 2, timeoutId = 12\<rparr>)]\<rparr>))
   \<and> (CreateChannel, \<lparr>promise = 1, timeoutId = 11\<rparr>)
       \<in> set (pendingRequests (fst (handleMessage (Parsed (bare_response Error (Some ''boom'')))
           (ready_service\<lparr>pendingRequests :=
              [(CreateChannel, \<lparr>promise = 1, timeoutId = 11\<rparr>),
               (GetConfig, \<lparr>promise = 2, timeoutId = 12\<rparr>)]\<rparr>))))
   \<and> Rejected 1 ''boom''
       \<notin> set (snd (handleMessage (Parsed (bare_response Error (Some ''boom'')))
           (ready_service\<lparr>pendingRequests :=
              [(CreateChannel, \<lparr>promise = 1, timeoutId = 11\<rparr>),
               (GetConfig, \<lparr>promise = 2, timeoutId = 12\<rparr>)]\<rparr>)))
   \<and> ClearTimer (RpcTimer 11)
       \<notin> set (snd (handleMessage (Parsed (bare_response Error (Some ''boom'')))
           (ready_service\<lparr>pendingRequests :=
              [(CreateChannel, \<lparr>promise = 1, timeoutId = 11\<rparr>),
               (GetConfig, \<lparr>promise = 2, timeoutId = 12\<rparr>)]\<rparr>)))"
  by (simp add: handleMessage_def bare_response_def reason_or_def AList.delete_eq
      ready_service_def new_service_def)

text \<open>
  C8.  The claim fails on the code.  \<^verbatim>\<open>cleanup\<close> removes the two temporary listeners
  from the socket \<^verbatim>\<open>this.ws\<close> refers to when the handshake ends, which need not be the
  socket they were registered on.  Two runs of a handshake started on socket 0 show it.
  In the first \<^verbatim>\<open>disconnect\<close> is called and the socket then closes: the promise is
  rejected (connection lost) and the timer cleared, but \<^verbatim>\<open>this.ws\<close> is \<^verbatim>\<open>null\<close> and
  both listeners stay on socket 0.  In the second \<^verbatim>\<open>_connectToClearNode\<close> assigns a new
  socket 1 to \<^verbatim>\<open>this.ws\<close> and the timer fires: the promise is rejected (timed out), the
  listeners are removed from socket 1, where they are not, and stay on socket 0.
\<close>

theorem handshake_listeners_leak:
  "map_of (settled (auth_run 1 [Disconnects, SocketCloses 0]
       (fst (authenticate_begin 1 Sent open_world)))) 1 = Some (Inl AuthConnectionLost)
   \<and> timers (auth_run 1 [Disconnects, SocketCloses 0]
       (fst (authenticate_begin 1 Sent open_world))) = []
   \<and> listeners (auth_run 1 [Disconnects, SocketCloses 0]
       (fst (authenticate_begin 1 Sent open_world)))
       = [(0, ServiceMessage), (0, AuthClose 1), (0, AuthMessage 1)]
   \<and> \<not> handshake_clean 1 (auth_run 1 [Disconnects, SocketCloses 0]
       (fst (authenticate_begin 1 Sent open_world)))
   \<and> map_of (settled (auth_run 1 [Connects 1, TimerFires]
       (fst (authenticate_begin 1 Sent open_world)))) 1 = Some (Inl AuthTimedOut)
   \<and> timers (auth_run 1 [Connects 1, TimerFires]
       (fst (authenticate_begin 1 Sent open_world))) = []
   \<and> listeners (auth_run 1 [Connects 1, TimerFires]
       (fst (authenticate_begin 1 Sent open_world)))
       = [(0, ServiceMessage), (0, AuthClose 1), (0, AuthMessage 1), (1, ServiceMessage)]
   \<and> \<not> handshake_clean 1 (auth_run 1 [Connects 1, TimerFires]
       (fst (authenticate_begin 1 Sent open_world)))"
  by (simp add: authenticate_begin_def auth_handle_def service_handle_def
      listener_handle_def auth_onClose_def auth_onTimeout_def auth_cleanup_def
      settle_def disconnect_def onclose_def attemptReconnect_def maxReconnectAttempts_def
      stopKeepAlive_def handshake_clean_def
      open_world_def ready_service_def new_service_def Let_def)

text \<open>Both runs are runs of a handshake that did start: the service of \<open>open_world\<close>
  has a wallet client and a session key and \<^verbatim>\<open>this.ws\<close> is socket 0, so the checks at
  the head of \<^verbatim>\<open>_authenticateWithNitrolite\<close> pass; the message listener of the handshake
  is on socket 0 after either run.\<close>

theorem handshake_listeners_leak_witness:
  "walletClient (svc open_world) \<and> sessionKey (svc open_world)
   \<and> ws (svc open_world) = Some 0
   \<and> (0, AuthMessage 1) \<in> set (listeners (auth_run 1 [Disconnects, SocketCloses 0]
       (fst (authenticate_begin 1 Sent open_world))))
   \<and> (0, AuthMessage 1) \<in> set (listeners (auth_run 1 [Connects 1, TimerFires]
       (fst (authenticate_begin 1 Sent open_world))))"
  using handshake_listeners_leak
  by (simp add: open_world_def ready_service_def new_service_def)

end
